theory Spec2Isabelle
  imports Main
begin

section \<open>The Gmail invoice tagger (\<^verbatim>\<open>main.py\<close>)\<close>

text \<open>
  The program polls the unread messages of a mailbox, asks a generative model for a
  category of each message and applies the category's label while marking the message read.
  This theory embeds \<^verbatim>\<open>main.py\<close>, the variant of the pipeline that can run
  (\<^verbatim>\<open>tagger.py\<close> is a draft of it that is not valid Python: it has unterminated string
  literals in \<^verbatim>\<open>classify_email\<close> and undefined names in \<^verbatim>\<open>gmail_authenticate\<close>).

  Conventions of the embedding.
  \<^item> A Python \<^verbatim>\<open>str\<close> is the \<open>string\<close> of its UTF-8 bytes: emptiness, equality and
    concatenation of texts are those of the byte strings.
  \<^item> A function that may raise returns \<open>py_error + 'a\<close>, \<open>Inl\<close> being the exception
    that leaves the function.
  \<^item> The two remote services are a record of response functions over a backend state
    \<open>'s\<close> that the embedding never inspects: any behaviour of the services, also a
    stateful or failing one, is an instance.
  \<^item> Everything the process does to the outside is kept in the \<open>world\<close>: the backend
    state, the requests issued so far and the lines printed so far.
\<close>

subsection \<open>Exceptions\<close>

datatype py_error =
    HttpError            \<comment> \<open>\<^verbatim>\<open>googleapiclient.errors.HttpError\<close>\<close>
  | BinasciiError        \<comment> \<open>\<^verbatim>\<open>binascii.Error\<close>, raised by the base64 decoder\<close>
  | UnicodeDecodeError   \<comment> \<open>raised by \<^verbatim>\<open>bytes.decode("utf-8")\<close>\<close>
  | ValueError           \<comment> \<open>raised by the base64 decoder on a non-ASCII \<^verbatim>\<open>str\<close>\<close>
  | OtherError           \<comment> \<open>any other \<^verbatim>\<open>Exception\<close> of a client library (transport, timeout, ...)\<close>

text \<open>What \<^verbatim>\<open>print(f"... {error}")\<close> shows of an exception: here, its class.\<close>

fun str_error :: "py_error \<Rightarrow> string" where
  "str_error HttpError = ''HttpError''"
| "str_error BinasciiError = ''binascii.Error''"
| "str_error UnicodeDecodeError = ''UnicodeDecodeError''"
| "str_error ValueError = ''ValueError''"
| "str_error OtherError = ''Exception''"

subsection \<open>Payloads of the mail service\<close>

text \<open>
  The JSON objects the program reads. A key the code reads with \<^verbatim>\<open>.get\<close> is an
  optional field; a key it subscripts (\<^verbatim>\<open>msg_summary["id"]\<close>, \<^verbatim>\<open>label["name"]\<close>,
  \<^verbatim>\<open>label["id"]\<close>) is a field the service always sends.
\<close>

record msg_summary =
  summary_id :: string

record msg_body =
  body_data :: "string option"

record msg_part =
  part_mimeType :: "string option"
  part_body :: "msg_body option"

record msg_payload =
  payload_parts :: "msg_part list option"
  payload_body :: "msg_body option"

record message =
  payload :: "msg_payload option"

record label =
  label_name :: string
  label_id :: string

record new_label =
  new_name :: string
  labelListVisibility :: string
  messageListVisibility :: string

record mods =
  addLabelIds :: "string list"
  removeLabelIds :: "string list"

subsection \<open>The remote services and the world\<close>

record 's env =
  messages_list :: "string \<Rightarrow> nat \<Rightarrow> 's \<Rightarrow> (py_error + msg_summary list option) \<times> 's"
  messages_get :: "string \<Rightarrow> string \<Rightarrow> 's \<Rightarrow> (py_error + message) \<times> 's"
  labels_list :: "'s \<Rightarrow> (py_error + label list option) \<times> 's"
  labels_create :: "new_label \<Rightarrow> 's \<Rightarrow> (py_error + label) \<times> 's"
  messages_modify :: "string \<Rightarrow> mods \<Rightarrow> 's \<Rightarrow> (py_error + unit) \<times> 's"
  generate_content :: "string \<Rightarrow> string \<Rightarrow> string \<Rightarrow> 's \<Rightarrow> (py_error + string option) \<times> 's"

datatype call =
    MessagesList string nat
  | MessagesGet string string
  | LabelsList
  | LabelsCreate new_label
  | MessagesModify string mods
  | GenerateContent string string string

record 's world =
  backend :: 's
  calls :: "call list"
  out :: "string list"

definition print_line :: "string \<Rightarrow> 's world \<Rightarrow> 's world" where
  "print_line l w = w\<lparr>out := out w @ [l]\<rparr>"

text \<open>One request: the service answers from its state, and the request is recorded.\<close>

definition request :: "call \<Rightarrow> ('s \<Rightarrow> 'r \<times> 's) \<Rightarrow> 's world \<Rightarrow> 'r \<times> 's world" where
  "request c f w =
     (case f (backend w) of (r, s') \<Rightarrow> (r, w\<lparr>backend := s', calls := calls w @ [c]\<rparr>))"

subsection \<open>Classification (\<^verbatim>\<open>classify_email\<close>)\<close>

definition CATEGORIES :: "string list" where
  "CATEGORIES = [''Orders'', ''Invoices'', ''Other'']"

fun join_str :: "string \<Rightarrow> string list \<Rightarrow> string" where
  "join_str sep [] = []"
| "join_str sep [x] = x"
| "join_str sep (x # y # ys) = x @ sep @ join_str sep (y # ys)"

definition classify_prompt :: "string \<Rightarrow> string" where
  "classify_prompt text =
     ''Classify this email into one of the following categories: ''
     @ join_str '', '' CATEGORIES @ ''. Email text: '' @ [CHR 0x27] @ text @ [CHR 0x27] @ ''. ''"

definition classify_model :: string where
  "classify_model = ''gemini-2.5-flash-lite-preview-06-17''"

definition system_instruction :: string where
  "system_instruction = ''Respond with a single JSON object like {\"category\": \"...\"}.''"

text \<open>
  \<^verbatim>\<open>response.text\<close> is \<open>None\<close> when the response has no text part; \<^verbatim>\<open>None in CATEGORIES\<close>
  is false. The \<^verbatim>\<open>except Exception\<close> clause catches whatever the call raises, prints it
  and falls through to the final \<^verbatim>\<open>return "Other"\<close>.
\<close>

definition classify_email :: "'s env \<Rightarrow> string \<Rightarrow> 's world \<Rightarrow> (py_error + string) \<times> 's world" where
  "classify_email env text w =
     (if text = [] then (Inr ''Other'', w)
      else
        let prompt = classify_prompt text in
        (case request (GenerateContent classify_model prompt system_instruction)
                (generate_content env classify_model prompt system_instruction) w of
           (Inl e, w1) \<Rightarrow>
             (Inr ''Other'',
              print_line (''An error occurred during AI classification: '' @ str_error e) w1)
         | (Inr None, w1) \<Rightarrow> (Inr ''Other'', w1)
         | (Inr (Some category), w1) \<Rightarrow>
             (if category \<in> set CATEGORIES then (Inr category, w1) else (Inr ''Other'', w1))))"

text \<open>The text a model sends when it follows the system instruction with category \<open>c\<close>.\<close>

definition json_category :: "string \<Rightarrow> string" where
  "json_category c = ''{\"category\": \"'' @ c @ ''\"}''"

subsection \<open>Decoding a body (\<^verbatim>\<open>base64.urlsafe_b64decode(data).decode("utf-8")\<close>)\<close>

text \<open>
  The two library functions, modelled after CPython. \<^verbatim>\<open>urlsafe_b64decode\<close> refuses a
  \<^verbatim>\<open>str\<close> with a non-ASCII character, maps \<^verbatim>\<open>-\<close> and \<^verbatim>\<open>_\<close> to \<^verbatim>\<open>+\<close> and \<^verbatim>\<open>/\<close> and
  runs \<^verbatim>\<open>binascii.a2b_base64\<close> in its default mode: characters outside the alphabet are
  skipped, a pad character ends the input once it completes a quadruple, and input that
  ends inside a quadruple raises \<^verbatim>\<open>binascii.Error\<close>.
\<close>

definition b64_value :: "char \<Rightarrow> nat option" where
  "b64_value c =
     (let n = (of_char c :: nat) in
      if 65 \<le> n \<and> n \<le> 90 then Some (n - 65)
      else if 97 \<le> n \<and> n \<le> 122 then Some (n - 71)
      else if 48 \<le> n \<and> n \<le> 57 then Some (n + 4)
      else if c = CHR ''+'' \<or> c = CHR ''-'' then Some 62
      else if c = CHR ''/'' \<or> c = CHR ''_'' then Some 63
      else None)"

fun a2b_base64 :: "string \<Rightarrow> nat \<Rightarrow> nat \<Rightarrow> nat \<Rightarrow> nat list \<Rightarrow> py_error + nat list" where
  "a2b_base64 [] quad_pos leftchar pads bin =
     (if quad_pos \<noteq> 0 then Inl BinasciiError else Inr bin)"
| "a2b_base64 (c # cs) quad_pos leftchar pads bin =
     (if c = CHR ''='' then
        (if 2 \<le> quad_pos \<and> 4 \<le> quad_pos + (pads + 1) then Inr bin
         else a2b_base64 cs quad_pos leftchar (if 2 \<le> quad_pos then pads + 1 else pads) bin)
      else
        (case b64_value c of
           None \<Rightarrow> a2b_base64 cs quad_pos leftchar pads bin
         | Some v \<Rightarrow>
             (if quad_pos = 0 then a2b_base64 cs 1 v 0 bin
              else if quad_pos = 1 then
                a2b_base64 cs 2 (v mod 16) 0 (bin @ [leftchar * 4 + v div 16])
              else if quad_pos = 2 then
                a2b_base64 cs 3 (v mod 4) 0 (bin @ [leftchar * 16 + v div 4])
              else a2b_base64 cs 0 0 0 (bin @ [leftchar * 64 + v]))))"

definition urlsafe_b64decode :: "string \<Rightarrow> py_error + nat list" where
  "urlsafe_b64decode s =
     (if \<exists>c \<in> set s. 128 \<le> (of_char c :: nat) then Inl ValueError
      else a2b_base64 s 0 0 0 [])"

text \<open>
  \<^verbatim>\<open>bytes.decode("utf-8")\<close> accepts exactly the well-formed UTF-8 byte sequences (no
  overlong form, no surrogate, nothing above U+10FFFF); the decoded \<^verbatim>\<open>str\<close> is then
  represented by those same bytes.
\<close>

definition cont :: "nat \<Rightarrow> bool" where
  "cont b = (0x80 \<le> b \<and> b \<le> 0xBF)"

fun utf8_valid :: "nat list \<Rightarrow> bool" where
  "utf8_valid [] = True"
| "utf8_valid (b # bs) =
     (if b < 0x80 then utf8_valid bs
      else if 0xC2 \<le> b \<and> b \<le> 0xDF then
        (case bs of b1 # r \<Rightarrow> cont b1 \<and> utf8_valid r | _ \<Rightarrow> False)
      else if 0xE0 \<le> b \<and> b \<le> 0xEF then
        (case bs of
           b1 # b2 # r \<Rightarrow>
             (if b = 0xE0 then 0xA0 \<le> b1 \<and> b1 \<le> 0xBF
              else if b = 0xED then 0x80 \<le> b1 \<and> b1 \<le> 0x9F
              else cont b1) \<and> cont b2 \<and> utf8_valid r
         | _ \<Rightarrow> False)
      else if 0xF0 \<le> b \<and> b \<le> 0xF4 then
        (case bs of
           b1 # b2 # b3 # r \<Rightarrow>
             (if b = 0xF0 then 0x90 \<le> b1 \<and> b1 \<le> 0xBF
              else if b = 0xF4 then 0x80 \<le> b1 \<and> b1 \<le> 0x8F
              else cont b1) \<and> cont b2 \<and> cont b3 \<and> utf8_valid r
         | _ \<Rightarrow> False)
      else False)"

definition decode_utf8 :: "nat list \<Rightarrow> py_error + string" where
  "decode_utf8 bin = (if utf8_valid bin then Inr (map char_of bin) else Inl UnicodeDecodeError)"

definition decode_text :: "string \<Rightarrow> py_error + string" where
  "decode_text s = (case urlsafe_b64decode s of Inl e \<Rightarrow> Inl e | Inr bin \<Rightarrow> decode_utf8 bin)"

subsection \<open>Calls to the mail service\<close>

text \<open>
  \<^verbatim>\<open>except HttpError as error: print(...); return default\<close>: an \<open>HttpError\<close> is printed
  and replaced by the default, any other exception leaves the function.
\<close>

definition except_HttpError ::
    "string \<Rightarrow> 'a \<Rightarrow> py_error \<Rightarrow> 's world \<Rightarrow> (py_error + 'a) \<times> 's world" where
  "except_HttpError msg dflt e w =
     (if e = HttpError then (Inr dflt, print_line (msg @ str_error e) w) else (Inl e, w))"

definition fetch_unread_message_ids ::
    "'s env \<Rightarrow> 's world \<Rightarrow> (py_error + msg_summary list) \<times> 's world" where
  "fetch_unread_message_ids env w =
     (case request (MessagesList ''is:unread'' 10) (messages_list env ''is:unread'' 10) w of
        (Inl e, w1) \<Rightarrow> except_HttpError ''An error occurred while fetching messages: '' [] e w1
      | (Inr response, w1) \<Rightarrow>
          (Inr (case response of None \<Rightarrow> [] | Some messages \<Rightarrow> messages), w1))"

definition message_parts :: "message \<Rightarrow> msg_part list" where
  "message_parts msg =
     (case payload msg of
        None \<Rightarrow> []
      | Some p \<Rightarrow> (case payload_parts p of None \<Rightarrow> [] | Some ps \<Rightarrow> ps))"

definition message_body_data :: "message \<Rightarrow> string option" where
  "message_body_data msg =
     (case payload msg of
        None \<Rightarrow> None
      | Some p \<Rightarrow> (case payload_body p of None \<Rightarrow> None | Some b \<Rightarrow> body_data b))"

definition part_data :: "msg_part \<Rightarrow> string" where
  "part_data part =
     (case part_body part of
        None \<Rightarrow> []
      | Some b \<Rightarrow> (case body_data b of None \<Rightarrow> [] | Some d \<Rightarrow> d))"

text \<open>The \<^verbatim>\<open>for part in parts\<close> loop, with \<open>text_content\<close> as the accumulator.\<close>

fun parts_loop :: "msg_part list \<Rightarrow> string \<Rightarrow> py_error + string" where
  "parts_loop [] text_content = Inr text_content"
| "parts_loop (part # parts) text_content =
     (if part_mimeType part = Some ''text/plain'' then
        (case decode_text (part_data part) of
           Inl e \<Rightarrow> Inl e
         | Inr t \<Rightarrow> parts_loop parts (text_content @ t))
      else parts_loop parts text_content)"

definition message_text :: "message \<Rightarrow> py_error + string" where
  "message_text msg =
     (let parts = message_parts msg in
      if parts = [] then
        (case message_body_data msg of
           None \<Rightarrow> Inr []
         | Some data \<Rightarrow> if data \<noteq> [] then decode_text data else Inr [])
      else parts_loop parts [])"

definition get_message_text ::
    "'s env \<Rightarrow> string \<Rightarrow> 's world \<Rightarrow> (py_error + string) \<times> 's world" where
  "get_message_text env msg_id w =
     (case request (MessagesGet msg_id ''full'') (messages_get env msg_id ''full'') w of
        (Inl e, w1) \<Rightarrow>
          except_HttpError ''An error occurred while getting message text: '' [] e w1
      | (Inr msg, w1) \<Rightarrow>
          (case message_text msg of
             Inl e \<Rightarrow>
               except_HttpError ''An error occurred while getting message text: '' [] e w1
           | Inr text_content \<Rightarrow> (Inr text_content, w1)))"

text \<open>The \<^verbatim>\<open>for label in labels\<close> loop: the identifier of the first label of that name.\<close>

fun find_label :: "string \<Rightarrow> label list \<Rightarrow> string option" where
  "find_label lname [] = None"
| "find_label lname (l # labels) =
     (if label_name l = lname then Some (label_id l) else find_label lname labels)"

definition get_or_create_label ::
    "'s env \<Rightarrow> string \<Rightarrow> 's world \<Rightarrow> (py_error + string) \<times> 's world" where
  "get_or_create_label env lname w =
     (case request LabelsList (labels_list env) w of
        (Inl e, w1) \<Rightarrow> except_HttpError ''An error occurred while processing labels: '' [] e w1
      | (Inr labels_response, w1) \<Rightarrow>
          (case find_label lname (case labels_response of None \<Rightarrow> [] | Some ls \<Rightarrow> ls) of
             Some i \<Rightarrow> (Inr i, w1)
           | None \<Rightarrow>
               (let new_label = \<lparr>new_name = lname, labelListVisibility = ''labelShow'',
                                 messageListVisibility = ''show''\<rparr> in
                case request (LabelsCreate new_label) (labels_create env new_label) w1 of
                  (Inl e, w2) \<Rightarrow>
                    except_HttpError ''An error occurred while processing labels: '' [] e w2
                | (Inr created_label, w2) \<Rightarrow> (Inr (label_id created_label), w2))))"

definition label_mods :: "string \<Rightarrow> mods" where
  "label_mods lid = \<lparr>addLabelIds = [lid], removeLabelIds = [''UNREAD'']\<rparr>"

definition apply_label ::
    "'s env \<Rightarrow> string \<Rightarrow> string \<Rightarrow> 's world \<Rightarrow> (py_error + unit) \<times> 's world" where
  "apply_label env msg_id lid w =
     (case request (MessagesModify msg_id (label_mods lid))
             (messages_modify env msg_id (label_mods lid)) w of
        (Inl e, w1) \<Rightarrow> except_HttpError ''An error occurred while applying the label: '' () e w1
      | (Inr u, w1) \<Rightarrow> (Inr (), w1))"

subsection \<open>The workflow (\<^verbatim>\<open>main\<close>)\<close>

fun str_nat :: "nat \<Rightarrow> string" where
  "str_nat n =
     (if n < 10 then [char_of (48 + n)] else str_nat (n div 10) @ [char_of (48 + n mod 10)])"

declare str_nat.simps [simp del]

definition skipped_line :: "string \<Rightarrow> string" where
  "skipped_line msg_id = ''Msg '' @ msg_id @ '': Could not retrieve text, skipping.''"

definition classified_line :: "string \<Rightarrow> string \<Rightarrow> string" where
  "classified_line msg_id category =
     ''Msg '' @ msg_id @ '': Classified as '' @ [CHR 0x27] @ category @ [CHR 0x27]"

definition success_line :: "string \<Rightarrow> string" where
  "success_line msg_id = ''Msg '' @ msg_id @ '': Successfully labeled and marked as read.''"

text \<open>The body of the \<^verbatim>\<open>for msg_summary in messages\<close> loop.\<close>

definition process_message ::
    "'s env \<Rightarrow> msg_summary \<Rightarrow> 's world \<Rightarrow> (py_error + unit) \<times> 's world" where
  "process_message env msg_summary w =
     (let msg_id = summary_id msg_summary in
      case get_message_text env msg_id w of
        (Inl e, w1) \<Rightarrow> (Inl e, w1)
      | (Inr text, w1) \<Rightarrow>
          (if text = [] then (Inr (), print_line (skipped_line msg_id) w1)
           else
             (case classify_email env text w1 of
                (Inl e, w2) \<Rightarrow> (Inl e, w2)
              | (Inr category, w2) \<Rightarrow>
                  (case get_or_create_label env category
                          (print_line (classified_line msg_id category) w2) of
                     (Inl e, w3) \<Rightarrow> (Inl e, w3)
                   | (Inr lid, w3) \<Rightarrow>
                       (if lid \<noteq> [] then
                          (case apply_label env msg_id lid w3 of
                             (Inl e, w4) \<Rightarrow> (Inl e, w4)
                           | (Inr u, w4) \<Rightarrow> (Inr (), print_line (success_line msg_id) w4))
                        else (Inr (), w3))))))"

fun process_messages ::
    "'s env \<Rightarrow> msg_summary list \<Rightarrow> 's world \<Rightarrow> (py_error + unit) \<times> 's world" where
  "process_messages env [] w = (Inr (), w)"
| "process_messages env (msg_summary # messages) w =
     (case process_message env msg_summary w of
        (Inl e, w1) \<Rightarrow> (Inl e, w1)
      | (Inr u, w1) \<Rightarrow> process_messages env messages w1)"

text \<open>
  \<open>main\<close> takes what \<^verbatim>\<open>gmail_authenticate()\<close> returned: \<open>None\<close>, or the handle of the
  two services. (Credentials and what \<^verbatim>\<open>gmail_authenticate\<close> prints are outside the
  embedding.)
\<close>

definition main :: "'s env option \<Rightarrow> 's world \<Rightarrow> (py_error + unit) \<times> 's world" where
  "main service w0 =
     (let w = print_line ''Starting email classification process...'' w0 in
      case service of
        None \<Rightarrow> (Inr (), print_line ''Could not authenticate with Gmail. Exiting.'' w)
      | Some env \<Rightarrow>
          (case fetch_unread_message_ids env w of
             (Inl e, w1) \<Rightarrow> (Inl e, w1)
           | (Inr messages, w1) \<Rightarrow>
               (if messages = [] then (Inr (), print_line ''No unread messages found.'' w1)
                else
                  (case process_messages env messages
                          (print_line (''Found '' @ str_nat (length messages)
                                       @ '' unread emails. Processing...'') w1) of
                     (Inl e, w2) \<Rightarrow> (Inl e, w2)
                   | (Inr u, w2) \<Rightarrow> (Inr (), print_line ''Processing complete.'' w2)))))"

section \<open>Test doubles and fixtures\<close>

text \<open>
  An in-memory mail service and model, used for the concrete runs below. Its state
  holds the answers it gives and, as \<open>fk_mailbox\<close>, the label identifiers each message
  carries (\<open>UNREAD\<close> being the unread flag). A successful modify request adds and
  removes labels of the one message; a rejected request changes nothing.
\<close>

record fake =
  fk_listing :: "py_error + msg_summary list option"
  fk_store :: "(string \<times> (py_error + message)) list"
  fk_labels :: "py_error + label list option"
  fk_create :: "py_error option"
  fk_modify :: "(string \<times> py_error) list"
  fk_reply :: "py_error + string option"
  fk_mailbox :: "string \<Rightarrow> string set"

definition fake_env :: "fake env" where
  "fake_env =
     \<lparr>messages_list = (\<lambda>q n s. (fk_listing s, s)),
      messages_get = (\<lambda>i f s.
         (case map_of (fk_store s) i of None \<Rightarrow> Inl HttpError | Some r \<Rightarrow> r, s)),
      labels_list = (\<lambda>s. (fk_labels s, s)),
      labels_create = (\<lambda>nl s.
         (case fk_create s of
            Some e \<Rightarrow> (Inl e, s)
          | None \<Rightarrow>
              (let l = \<lparr>label_name = new_name nl, label_id = ''Label_'' @ new_name nl\<rparr> in
               (Inr l,
                s\<lparr>fk_labels :=
                    (case fk_labels s of
                       Inr (Some ls) \<Rightarrow> Inr (Some (ls @ [l]))
                     | Inr None \<Rightarrow> Inr (Some [l])
                     | Inl e \<Rightarrow> Inl e)\<rparr>)))),
      messages_modify = (\<lambda>i m s.
         (case map_of (fk_modify s) i of
            Some e \<Rightarrow> (Inl e, s)
          | None \<Rightarrow>
              (Inr (),
               s\<lparr>fk_mailbox := (fk_mailbox s)
                    (i := (fk_mailbox s i \<union> set (addLabelIds m)) - set (removeLabelIds m))\<rparr>))),
      generate_content = (\<lambda>m p i s. (fk_reply s, s))\<rparr>"

definition world0 :: "'s \<Rightarrow> 's world" where
  "world0 s = \<lparr>backend = s, calls = [], out = []\<rparr>"

definition single_part :: "string \<Rightarrow> message" where
  "single_part d =
     \<lparr>payload = Some \<lparr>payload_parts = None, payload_body = Some \<lparr>body_data = Some d\<rparr>\<rparr>\<rparr>"

definition text_part :: "string \<Rightarrow> string \<Rightarrow> msg_part" where
  "text_part mime d = \<lparr>part_mimeType = Some mime, part_body = Some \<lparr>body_data = Some d\<rparr>\<rparr>"

definition multi_part :: "msg_part list \<Rightarrow> message" where
  "multi_part ps = \<lparr>payload = Some \<lparr>payload_parts = Some ps, payload_body = None\<rparr>\<rparr>"

text \<open>
  One unread message \<open>m1\<close> in the inbox, the label \<open>Invoices\<close> known as \<open>L1\<close>, a model
  that answers with the bare name \<open>Invoices\<close>, no failure anywhere.
\<close>

definition fake0 :: fake where
  "fake0 =
     \<lparr>fk_listing = Inr (Some [\<lparr>summary_id = ''m1''\<rparr>]),
      fk_store = [(''m1'', Inr (single_part ''SGVsbG8gV29ybGQ=''))],
      fk_labels = Inr (Some [\<lparr>label_name = ''Invoices'', label_id = ''L1''\<rparr>]),
      fk_create = None,
      fk_modify = [],
      fk_reply = Inr (Some ''Invoices''),
      fk_mailbox = (\<lambda>i. {''UNREAD'', ''INBOX''})\<rparr>"

definition fake_multi :: fake where
  "fake_multi =
     fake0\<lparr>fk_store :=
       [(''m1'', Inr (multi_part [text_part ''text/plain'' ''SGVsbG8='',
                                  text_part ''text/html'' ''...'']))]\<rparr>"

text \<open>As \<open>fake0\<close>, but the labels cannot be listed: label resolution fails.\<close>

definition fake_unresolved :: fake where
  "fake_unresolved = fake0\<lparr>fk_labels := Inl HttpError\<rparr>"

text \<open>As \<open>fake0\<close>, but the service rejects every modification of \<open>m1\<close>.\<close>

definition fake_rejected :: fake where
  "fake_rejected = fake0\<lparr>fk_modify := [(''m1'', HttpError)]\<rparr>"

text \<open>
  A service whose state counts the requests served. It lists \<open>m1\<close> and \<open>m2\<close> when it
  is fresh and fails to list afterwards; it fails with \<open>HttpError\<close> on \<open>m1\<close>, on label
  creation and on modification, and its model is unreachable.
\<close>

definition flaky_env :: "nat env" where
  "flaky_env =
     \<lparr>messages_list = (\<lambda>q n s.
         (if s = 0 then Inr (Some [\<lparr>summary_id = ''m1''\<rparr>, \<lparr>summary_id = ''m2''\<rparr>])
          else Inl HttpError, Suc s)),
      messages_get = (\<lambda>i f s.
         (if i = ''m1'' then Inl HttpError else Inr (single_part ''SGVsbG8gV29ybGQ=''), Suc s)),
      labels_list = (\<lambda>s. (Inr None, Suc s)),
      labels_create = (\<lambda>nl s. (Inl HttpError, Suc s)),
      messages_modify = (\<lambda>i m s. (Inl HttpError, Suc s)),
      generate_content = (\<lambda>m p i s. (Inl OtherError, Suc s))\<rparr>"

text \<open>
  Two unread messages; the body of \<open>m1\<close> is the single byte \<open>0xE9\<close> (Latin-1 for an
  accented "e"), which is not UTF-8.
\<close>

definition fake_latin1 :: fake where
  "fake_latin1 =
     fake0\<lparr>fk_listing := Inr (Some [\<lparr>summary_id = ''m1''\<rparr>, \<lparr>summary_id = ''m2''\<rparr>]),
           fk_store := [(''m1'', Inr (single_part ''6Q=='')),
                        (''m2'', Inr (single_part ''SGVsbG8gV29ybGQ=''))]\<rparr>"

text \<open>
  As \<open>fake0\<close>, with the labels \<open>Orders\<close> (\<open>L0\<close>) and \<open>Invoices\<close> (\<open>L1\<close>), and with
  messages that already carry \<open>L0\<close>: unread again after an earlier run, say.
\<close>

definition two_labels :: "label list" where
  "two_labels = [\<lparr>label_name = ''Orders'', label_id = ''L0''\<rparr>,
                 \<lparr>label_name = ''Invoices'', label_id = ''L1''\<rparr>]"

definition fake_relabel :: fake where
  "fake_relabel =
     fake0\<lparr>fk_labels := Inr (Some two_labels), fk_mailbox := (\<lambda>i. {''UNREAD'', ''L0''})\<rparr>"

text \<open>
  A message of two \<open>text/plain\<close> parts: \<open>Hello\<close>, and the byte \<open>0xE9\<close>, which is not
  UTF-8.
\<close>

definition fake_multi_latin1 :: fake where
  "fake_multi_latin1 =
     fake0\<lparr>fk_store :=
       [(''m1'', Inr (multi_part [text_part ''text/plain'' ''SGVsbG8='',
                                  text_part ''text/plain'' ''6Q=='']))]\<rparr>"


section \<open>Notions used in the statements\<close>

definition is_plain :: "msg_part \<Rightarrow> bool" where
  "is_plain part = (part_mimeType part = Some ''text/plain'')"

text \<open>The modify requests of a trace, in order: message identifier and modification.\<close>

fun modify_calls :: "call list \<Rightarrow> (string \<times> mods) list" where
  "modify_calls [] = []"
| "modify_calls (MessagesModify i m # cs) = (i, m) # modify_calls cs"
| "modify_calls (c # cs) = modify_calls cs"

text \<open>No modify request of the trace adds the empty label identifier.\<close>

definition empty_label_free :: "call list \<Rightarrow> bool" where
  "empty_label_free cs = (\<forall>(i, m) \<in> set (modify_calls cs). [] \<notin> set (addLabelIds m))"

text \<open>The messages requested in a trace, in order.\<close>

fun get_calls :: "call list \<Rightarrow> string list" where
  "get_calls [] = []"
| "get_calls (MessagesGet i f # cs) = i # get_calls cs"
| "get_calls (c # cs) = get_calls cs"

text \<open>Every failure of a call to the mail service is an \<open>HttpError\<close>, in every state.\<close>

definition only_HttpError :: "'s env \<Rightarrow> bool" where
  "only_HttpError env \<longleftrightarrow>
     (\<forall>q n s e. fst (messages_list env q n s) = Inl e \<longrightarrow> e = HttpError) \<and>
     (\<forall>i f s e. fst (messages_get env i f s) = Inl e \<longrightarrow> e = HttpError) \<and>
     (\<forall>s e. fst (labels_list env s) = Inl e \<longrightarrow> e = HttpError) \<and>
     (\<forall>nl s e. fst (labels_create env nl s) = Inl e \<longrightarrow> e = HttpError) \<and>
     (\<forall>i m s e. fst (messages_modify env i m s) = Inl e \<longrightarrow> e = HttpError)"

text \<open>Every message the service sends has a text that decodes.\<close>

definition decodable :: "'s env \<Rightarrow> bool" where
  "decodable env \<longleftrightarrow>
     (\<forall>i f s msg. fst (messages_get env i f s) = Inr msg \<longrightarrow> (\<exists>t. message_text msg = Inr t))"

text \<open>
  The labels of the messages after message \<open>i\<close> got the label \<open>lid\<close> and lost
  \<open>UNREAD\<close>; the labels it carried before are kept, every other message is as before.
\<close>

definition relabel :: "string \<Rightarrow> string \<Rightarrow> (string \<Rightarrow> string set) \<Rightarrow> string \<Rightarrow> string set" where
  "relabel i lid before = before(i := insert lid (before i) - {''UNREAD''})"

text \<open>
  What the statements about the state of a message assume of the mail service, for a
  view \<open>labels_of\<close> of its state as the label identifiers on each message: only a
  modify request changes them, a rejected one changes nothing, and an accepted one
  applies its additions and removals to its one message, at once.
\<close>

definition mail_model :: "'s env \<Rightarrow> ('s \<Rightarrow> string \<Rightarrow> string set) \<Rightarrow> bool" where
  "mail_model env labels_of \<longleftrightarrow>
     (\<forall>q n s. labels_of (snd (messages_list env q n s)) = labels_of s) \<and>
     (\<forall>i f s. labels_of (snd (messages_get env i f s)) = labels_of s) \<and>
     (\<forall>s. labels_of (snd (labels_list env s)) = labels_of s) \<and>
     (\<forall>nl s. labels_of (snd (labels_create env nl s)) = labels_of s) \<and>
     (\<forall>m p i s. labels_of (snd (generate_content env m p i s)) = labels_of s) \<and>
     (\<forall>i m s. labels_of (snd (messages_modify env i m s)) =
        (case fst (messages_modify env i m s) of
           Inl e \<Rightarrow> labels_of s
         | Inr u \<Rightarrow> (labels_of s)
             (i := (labels_of s i \<union> set (addLabelIds m)) - set (removeLabelIds m))))"

text \<open>
  The first terminal state of a message as the specification words it: exactly one of the
  labels it carries is a category label, and it is not unread.
\<close>

definition category_label_ids :: "label list \<Rightarrow> string set" where
  "category_label_ids ls =
     set (map label_id (filter (\<lambda>l. label_name l \<in> set CATEGORIES) ls))"

definition labelled_and_read :: "string set \<Rightarrow> string set \<Rightarrow> bool" where
  "labelled_and_read category_ids ls \<longleftrightarrow> card (ls \<inter> category_ids) = 1 \<and> ''UNREAD'' \<notin> ls"

text \<open>
  What "base64url-encoded" means: the encoding of RFC 4648, section 5, with padding, as
  \<^verbatim>\<open>base64.urlsafe_b64encode\<close> produces it. The argument of \<open>urlsafe_b64encode\<close> is a
  text, that is, its UTF-8 bytes.
\<close>

definition b64_char :: "nat \<Rightarrow> char" where
  "b64_char v =
     (if v < 26 then char_of (65 + v)
      else if v < 52 then char_of (71 + v)
      else if v < 62 then char_of (v - 4)
      else if v = 62 then CHR ''-''
      else CHR ''_'')"

fun b64_encode :: "nat list \<Rightarrow> string" where
  "b64_encode [] = []"
| "b64_encode [a] =
     [b64_char (a div 4), b64_char (a mod 4 * 16), CHR ''='', CHR ''='']"
| "b64_encode [a, b] =
     [b64_char (a div 4), b64_char (a mod 4 * 16 + b div 16), b64_char (b mod 16 * 4), CHR ''='']"
| "b64_encode (a # b # c # bs) =
     [b64_char (a div 4), b64_char (a mod 4 * 16 + b div 16),
      b64_char (b mod 16 * 4 + c div 64), b64_char (c mod 64)] @ b64_encode bs"

definition urlsafe_b64encode :: "string \<Rightarrow> string" where
  "urlsafe_b64encode t = b64_encode (map of_char t)"


section \<open>Properties of the classifier\<close>

lemma classify_email_cases:
  "fst (classify_email env text w) = Inr ''Orders'' \<or>
   fst (classify_email env text w) = Inr ''Invoices'' \<or>
   fst (classify_email env text w) = Inr ''Other''"
  by (auto simp: classify_email_def CATEGORIES_def Let_def split: prod.splits sum.splits option.splits)

text \<open>
  C2. The classifier is total: for every text, every behaviour of the model service and
  every world, \<open>classify_email\<close> returns a value, never an exception, and the value is one
  of the three categories; this includes the case where the model call raises.
\<close>

theorem classify_email_total:
  "\<exists>c. fst (classify_email env text w) = Inr c \<and> c \<in> {''Orders'', ''Invoices'', ''Other''}"
  using classify_email_cases [of env _ w] by auto

text \<open>
  C4. On the empty text the classifier answers \<open>Other\<close> and the world is unchanged:
  no request was issued to the model (or to any service) and nothing was printed.
\<close>

theorem classify_email_empty:
  "classify_email env [] w = (Inr ''Other'', w)"
  by (simp add: classify_email_def)

lemma json_category_not_category: "json_category c \<notin> set CATEGORIES"
  by (simp add: json_category_def CATEGORIES_def)

text \<open>
  C9. \<open>classify_email\<close> compares the raw response text with the category names and
  parses nothing. So a result other than \<open>Other\<close> means that the model's text was
  exactly \<open>Orders\<close> or \<open>Invoices\<close>; and a response in the format the system instruction
  asks for, \<open>{"category": "c"}\<close>, gives \<open>Other\<close> for every \<open>c\<close>, also for a category
  of the set.
\<close>

theorem classify_email_raw_text:
  "(fst (classify_email env text w) \<noteq> Inr ''Other'' \<longrightarrow>
      text \<noteq> [] \<and>
      (\<exists>c. (c = ''Orders'' \<or> c = ''Invoices'') \<and>
           fst (generate_content env classify_model (classify_prompt text) system_instruction
                  (backend w)) = Inr (Some c) \<and>
           fst (classify_email env text w) = Inr c)) \<and>
   (fst (generate_content env classify_model (classify_prompt text) system_instruction
           (backend w)) = Inr (Some (json_category c')) \<longrightarrow>
      fst (classify_email env text w) = Inr ''Other'')"
  using json_category_not_category [of c']
  by (auto simp: classify_email_def request_def Let_def CATEGORIES_def
           split: prod.splits sum.splits option.splits)

theorem classify_email_raw_text_witness:
  "fst (classify_email fake_env ''Your order has shipped''
          (world0 (fake0\<lparr>fk_reply := Inr (Some (json_category ''Orders''))\<rparr>))) = Inr ''Other'' \<and>
   (\<exists>c. (c = ''Orders'' \<or> c = ''Invoices'') \<and>
        fst (generate_content fake_env classify_model
               (classify_prompt ''Please pay invoice #123'') system_instruction
               (backend (world0 fake0))) = Inr (Some c) \<and>
        fst (classify_email fake_env ''Please pay invoice #123'' (world0 fake0)) = Inr c)"
proof -
  let ?w = "world0 (fake0\<lparr>fk_reply := Inr (Some (json_category ''Orders''))\<rparr>)"
  have g: "fst (generate_content fake_env classify_model
                  (classify_prompt ''Your order has shipped'') system_instruction (backend ?w))
             = Inr (Some (json_category ''Orders''))"
    by (simp add: fake_env_def world0_def)
  from classify_email_raw_text [of fake_env "''Your order has shipped''" ?w "''Orders''"] g
  have a: "fst (classify_email fake_env ''Your order has shipped'' ?w) = Inr ''Other''"
    by blast
  have "fst (classify_email fake_env ''Please pay invoice #123'' (world0 fake0)) = Inr ''Invoices''"
    by code_simp
  then have n: "fst (classify_email fake_env ''Please pay invoice #123'' (world0 fake0))
                  \<noteq> Inr ''Other''"
    by simp
  from classify_email_raw_text [of fake_env "''Please pay invoice #123''" "world0 fake0"] n
  have b: "\<exists>c. (c = ''Orders'' \<or> c = ''Invoices'') \<and>
        fst (generate_content fake_env classify_model
               (classify_prompt ''Please pay invoice #123'') system_instruction
               (backend (world0 fake0))) = Inr (Some c) \<and>
        fst (classify_email fake_env ''Please pay invoice #123'' (world0 fake0)) = Inr c"
    by blast
  from a b show ?thesis by (rule conjI)
qed

text \<open>
  C3. A malformed response should give \<open>Other\<close>. The bare word \<open>Invoices\<close> is not JSON
  (it is neither an object nor a quoted string), yet \<open>classify_email\<close> returns it as the
  category: the response is never parsed.
\<close>

theorem classify_email_accepts_bare_name:
  "fst (classify_email fake_env ''Please pay invoice #123'' (world0 fake0)) = Inr ''Invoices''"
  by code_simp

section \<open>Properties of text extraction\<close>

lemma a2b_base64_error: "a2b_base64 s q l p bin = Inl e \<Longrightarrow> e = BinasciiError"
  by (induction s q l p bin rule: a2b_base64.induct) (auto split: if_splits option.splits)

lemma decode_text_error: "decode_text s = Inl e \<Longrightarrow> e \<noteq> HttpError"
  by (auto simp: decode_text_def urlsafe_b64decode_def decode_utf8_def
           split: sum.splits if_splits dest: a2b_base64_error)

lemma decode_text_Nil: "decode_text [] = Inr []"
  by (simp add: decode_text_def urlsafe_b64decode_def decode_utf8_def)

lemma parts_loop_error: "parts_loop parts acc = Inl e \<Longrightarrow> e \<noteq> HttpError"
  by (induction parts acc rule: parts_loop.induct)
     (auto split: if_splits sum.splits dest: decode_text_error)

lemma message_text_error: "message_text msg = Inl e \<Longrightarrow> e \<noteq> HttpError"
  by (auto simp: message_text_def Let_def split: if_splits option.splits
           dest: decode_text_error parts_loop_error)

text \<open>
  When the service answers with a message, one request has been issued, nothing is
  printed, and the result is the text of the message or the exception of its decoding.
\<close>

lemma get_message_text_Inr:
  assumes "messages_get env msg_id ''full'' (backend w) = (Inr msg, s')"
  shows "get_message_text env msg_id w =
           (message_text msg, w\<lparr>backend := s', calls := calls w @ [MessagesGet msg_id ''full'']\<rparr>)"
  using assms
  by (auto simp: get_message_text_def request_def except_HttpError_def
           split: sum.splits dest: message_text_error)

lemma parts_loop_concat:
  "\<forall>p \<in> set (filter is_plain parts). decode_text (part_data p) = Inr (decoded p) \<Longrightarrow>
   parts_loop parts acc = Inr (acc @ concat (map decoded (filter is_plain parts)))"
  by (induction parts arbitrary: acc) (auto simp: is_plain_def)

lemma decode_hello_world: "decode_text ''SGVsbG8gV29ybGQ='' = Inr ''Hello World''"
  by code_simp

lemma decode_hello: "decode_text ''SGVsbG8='' = Inr ''Hello''"
  by code_simp

text \<open>The decoder inverts the encoder: on an encoded text, \<open>decode_text\<close> gives the text back.\<close>

lemma of_char_b64_char:
  "v < 64 \<Longrightarrow> (of_char (b64_char v) :: nat) =
     (if v < 26 then 65 + v else if v < 52 then 71 + v else if v < 62 then v - 4
      else if v = 62 then 45 else 95)"
  by (simp add: b64_char_def)

lemma b64_value_of_char:
  "b64_value c =
     (let n = (of_char c :: nat) in
      if 65 \<le> n \<and> n \<le> 90 then Some (n - 65)
      else if 97 \<le> n \<and> n \<le> 122 then Some (n - 71)
      else if 48 \<le> n \<and> n \<le> 57 then Some (n + 4)
      else if n = 43 \<or> n = 45 then Some 62
      else if n = 47 \<or> n = 95 then Some 63
      else None)"
proof -
  have "(c = CHR ''+'') = ((of_char c :: nat) = 43)" "(c = CHR ''-'') = ((of_char c :: nat) = 45)"
       "(c = CHR ''/'') = ((of_char c :: nat) = 47)" "(c = CHR ''_'') = ((of_char c :: nat) = 95)"
    using of_char_eq_iff [of c "CHR ''+''", where ?'a = nat]
          of_char_eq_iff [of c "CHR ''-''", where ?'a = nat]
          of_char_eq_iff [of c "CHR ''/''", where ?'a = nat]
          of_char_eq_iff [of c "CHR ''_''", where ?'a = nat]
    by simp_all
  then show ?thesis by (auto simp: b64_value_def Let_def)
qed

lemma b64_value_char: "v < 64 \<Longrightarrow> b64_value (b64_char v) = Some v"
  unfolding b64_value_of_char Let_def of_char_b64_char
  by (auto simp: of_char_b64_char)

lemma b64_char_not_pad: "v < 64 \<Longrightarrow> b64_char v \<noteq> CHR ''=''"
proof
  assume v: "v < 64" and "b64_char v = CHR ''=''"
  then have "(of_char (b64_char v) :: nat) = of_char (CHR ''='')" by simp
  with v show False by (simp add: of_char_b64_char split: if_splits)
qed

lemma b64_char_ascii: "v < 64 \<Longrightarrow> (of_char (b64_char v) :: nat) < 128"
  by (auto simp: of_char_b64_char)

lemma div_16: "y < 16 \<Longrightarrow> (x * 16 + y) div 16 = (x::nat)" by simp
lemma mod_16: "y < 16 \<Longrightarrow> (x * 16 + y) mod 16 = (y::nat)" by simp
lemma div_4: "y < 4 \<Longrightarrow> (x * 4 + y) div 4 = (x::nat)" by simp
lemma mod_4: "y < 4 \<Longrightarrow> (x * 4 + y) mod 4 = (y::nat)" by simp
lemma byte_div_16: "b < 256 \<Longrightarrow> b div 16 < (16::nat)" by (simp add: less_mult_imp_div_less)
lemma byte_div_64: "c < 256 \<Longrightarrow> c div 64 < (4::nat)" by (simp add: less_mult_imp_div_less)
lemma sextet_1: "a < 256 \<Longrightarrow> a div 4 < (64::nat)" by (simp add: less_mult_imp_div_less)

lemma sextet_2: "b < 256 \<Longrightarrow> a mod 4 * 16 + b div 16 < (64::nat)"
proof -
  assume "b < 256"
  then have "b div 16 < 16" by (rule byte_div_16)
  moreover have "a mod 4 < 4" by simp
  then have "a mod 4 * 16 \<le> 3 * 16" by (intro mult_le_mono1) simp
  ultimately show ?thesis by simp
qed

lemma sextet_3: "c < 256 \<Longrightarrow> b mod 16 * 4 + c div 64 < (64::nat)"
proof -
  assume "c < 256"
  then have "c div 64 < 4" by (rule byte_div_64)
  moreover have "b mod 16 < 16" by simp
  then have "b mod 16 * 4 \<le> 15 * 4" by (intro mult_le_mono1) simp
  ultimately show ?thesis by simp
qed

lemma quad_1: "b < 256 \<Longrightarrow> a div 4 * 4 + (a mod 4 * 16 + b div 16) div 16 = (a::nat)"
  by (simp add: div_16 byte_div_16)

lemma quad_2: "b < 256 \<Longrightarrow> c < 256 \<Longrightarrow>
    (a mod 4 * 16 + b div 16) mod 16 * 16 + (b mod 16 * 4 + c div 64) div 4 = (b::nat)"
  by (simp add: mod_16 byte_div_16 div_4 byte_div_64)

lemma quad_3: "c < 256 \<Longrightarrow> (b mod 16 * 4 + c div 64) mod 4 * 64 + c mod 64 = (c::nat)"
  by (simp add: mod_4 byte_div_64)

lemma a2b_base64_char:
  assumes "v < 64"
  shows "a2b_base64 (b64_char v # cs) q l p bin =
           (if q = 0 then a2b_base64 cs 1 v 0 bin
            else if q = 1 then a2b_base64 cs 2 (v mod 16) 0 (bin @ [l * 4 + v div 16])
            else if q = 2 then a2b_base64 cs 3 (v mod 4) 0 (bin @ [l * 16 + v div 4])
            else a2b_base64 cs 0 0 0 (bin @ [l * 64 + v]))"
  using assms by (simp add: b64_value_char b64_char_not_pad)

lemma a2b_base64_quad:
  assumes "v1 < 64" "v2 < 64" "v3 < 64" "v4 < 64"
  shows "a2b_base64 (b64_char v1 # b64_char v2 # b64_char v3 # b64_char v4 # cs) 0 l p bin =
           a2b_base64 cs 0 0 0
             (bin @ [v1 * 4 + v2 div 16, v2 mod 16 * 16 + v3 div 4, v3 mod 4 * 64 + v4])"
  using assms by (simp add: a2b_base64_char del: a2b_base64.simps)

lemma a2b_base64_encode:
  "\<forall>b \<in> set bs. b < 256 \<Longrightarrow> a2b_base64 (b64_encode bs) 0 l p bin = Inr (bin @ bs)"
proof (induction bs arbitrary: l p bin rule: b64_encode.induct)
  case 1
  show ?case by simp
next
  case (2 a)
  then have a: "a < 256" by simp
  have s: "a mod 4 * 16 < (64::nat)" using sextet_2 [of 0 a] by simp
  have q: "a div 4 * 4 + a mod 4 * 16 div 16 = a" using quad_1 [of 0 a] by simp
  from a s q show ?case
    by (simp add: a2b_base64_char sextet_1 del: a2b_base64.simps(2)) simp
next
  case (3 a b)
  then have ab: "a < 256" "b < 256" by simp_all
  have s3: "b mod 16 * 4 < (64::nat)" using sextet_3 [of 0 b] by simp
  have q2: "(a mod 4 * 16 + b div 16) mod 16 * 16 + (b mod 16 * 4) div 4 = b"
    using quad_2 [of b 0 a] ab by simp
  from ab s3 q2 show ?case
    by (simp add: a2b_base64_char sextet_1 sextet_2 quad_1 del: a2b_base64.simps(2)) simp
next
  case (4 a b c bs)
  then have abc: "a < 256" "b < 256" "c < 256" and rest: "\<forall>b \<in> set bs. b < 256"
    by simp_all
  from abc show ?case
    by (simp add: a2b_base64_quad sextet_1 sextet_2 sextet_3 quad_1 quad_2 quad_3
                  "4.IH" [OF rest] del: a2b_base64.simps)
qed

lemma b64_encode_ascii:
  "\<forall>b \<in> set bs. b < 256 \<Longrightarrow> c \<in> set (b64_encode bs) \<Longrightarrow> (of_char c :: nat) < 128"
proof (induction bs rule: b64_encode.induct)
  case 1
  then show ?case by simp
next
  case (2 a)
  have "a mod 4 * 16 < (64::nat)" using sextet_2 [of 0 a] by simp
  with 2 show ?case by (auto simp: b64_char_ascii sextet_1)
next
  case (3 a b)
  have "b mod 16 * 4 < (64::nat)" using sextet_3 [of 0 b] by simp
  with 3 show ?case by (auto simp: b64_char_ascii sextet_1 sextet_2)
next
  case (4 a b c bs)
  then show ?case by (auto simp: b64_char_ascii sextet_1 sextet_2 sextet_3)
qed

lemma urlsafe_b64decode_encode: "urlsafe_b64decode (urlsafe_b64encode t) = Inr (map of_char t)"
proof -
  have bytes: "\<forall>b \<in> set (map of_char t). b < (256::nat)" by simp
  then have "\<forall>c \<in> set (b64_encode (map of_char t)). (of_char c :: nat) < 128"
    by (blast intro: b64_encode_ascii)
  then have "\<not> (\<exists>c \<in> set (urlsafe_b64encode t). 128 \<le> (of_char c :: nat))"
    by (auto simp: urlsafe_b64encode_def)
  with a2b_base64_encode [OF bytes, of 0 0 "[]"] show ?thesis
    by (simp add: urlsafe_b64decode_def urlsafe_b64encode_def)
qed

lemma decode_text_encode:
  "utf8_valid (map of_char t) \<Longrightarrow> decode_text (urlsafe_b64encode t) = Inr t"
  by (simp add: decode_text_def urlsafe_b64decode_encode decode_utf8_def comp_def)

lemma encode_hello_world: "urlsafe_b64encode ''Hello World'' = ''SGVsbG8gV29ybGQ=''"
  by code_simp

lemma encode_hello: "urlsafe_b64encode ''Hello'' = ''SGVsbG8=''"
  by code_simp

lemma encode_latin1: "urlsafe_b64encode [CHR 0xE9] = ''6Q==''"
  by code_simp

lemma parts_loop_raises:
  "p \<in> set parts \<Longrightarrow> is_plain p \<Longrightarrow> decode_text (part_data p) = Inl e \<Longrightarrow>
   \<exists>e'. parts_loop parts acc = Inl e'"
  by (induction parts arbitrary: acc) (auto simp: is_plain_def split: sum.splits)

text \<open>
  C5, as the code has it. For a message without a parts list (the key is absent or the
  list is empty) whose body data is the base64url encoding of a text in UTF-8,
  \<open>get_message_text\<close> issues the one get request and returns that text: the data is
  decoded once. Body data that does not decode raises, and the exception leaves
  \<open>get_message_text\<close>. The encoding of \<open>Hello World\<close> is \<open>SGVsbG8gV29ybGQ=\<close>.
\<close>

theorem get_message_text_single_part:
  assumes "messages_get env msg_id ''full'' (backend w) = (Inr msg, s')"
    and "message_parts msg = []"
  shows "(message_body_data msg = Some (urlsafe_b64encode t) \<and> utf8_valid (map of_char t) \<longrightarrow>
            get_message_text env msg_id w =
              (Inr t, w\<lparr>backend := s', calls := calls w @ [MessagesGet msg_id ''full'']\<rparr>)) \<and>
         (message_body_data msg = Some d \<and> decode_text d = Inl e \<longrightarrow>
            get_message_text env msg_id w =
              (Inl e, w\<lparr>backend := s', calls := calls w @ [MessagesGet msg_id ''full'']\<rparr>)) \<and>
         urlsafe_b64encode ''Hello World'' = ''SGVsbG8gV29ybGQ=''"
proof (intro conjI impI)
  assume "message_body_data msg = Some (urlsafe_b64encode t) \<and> utf8_valid (map of_char t)"
  then have b: "message_body_data msg = Some (urlsafe_b64encode t)"
    and dt: "decode_text (urlsafe_b64encode t) = Inr t"
    by (simp_all add: decode_text_encode)
  have "t = []" if "urlsafe_b64encode t = []"
    using dt that decode_text_Nil by simp
  with b dt have "message_text msg = Inr t"
    using assms(2) by (auto simp: message_text_def)
  with assms(1) show "get_message_text env msg_id w =
              (Inr t, w\<lparr>backend := s', calls := calls w @ [MessagesGet msg_id ''full'']\<rparr>)"
    by (simp add: get_message_text_Inr)
next
  assume a: "message_body_data msg = Some d \<and> decode_text d = Inl e"
  then have "d \<noteq> []" using decode_text_Nil by auto
  with a have "message_text msg = Inl e"
    using assms(2) by (simp add: message_text_def)
  with assms(1) show "get_message_text env msg_id w =
              (Inl e, w\<lparr>backend := s', calls := calls w @ [MessagesGet msg_id ''full'']\<rparr>)"
    by (simp add: get_message_text_Inr)
next
  show "urlsafe_b64encode ''Hello World'' = ''SGVsbG8gV29ybGQ=''"
    by (rule encode_hello_world)
qed

theorem get_message_text_single_part_witness:
  "fst (get_message_text fake_env ''m1'' (world0 fake0)) = Inr ''Hello World'' \<and>
   fst (get_message_text fake_env ''m1'' (world0 fake_latin1)) = Inl UnicodeDecodeError"
proof -
  have 1: "messages_get fake_env ''m1'' ''full'' (backend (world0 fake0))
             = (Inr (single_part ''SGVsbG8gV29ybGQ=''), fake0)"
    by (simp add: fake_env_def world0_def fake0_def)
  have 2: "message_parts (single_part ''SGVsbG8gV29ybGQ='') = []"
    by (simp add: message_parts_def single_part_def)
  have 3: "message_body_data (single_part ''SGVsbG8gV29ybGQ='')
             = Some (urlsafe_b64encode ''Hello World'')"
    by (simp add: message_body_data_def single_part_def encode_hello_world)
  have 4: "utf8_valid (map of_char ''Hello World'')"
    by code_simp
  from get_message_text_single_part [OF 1 2, of "''Hello World''"] 3 4
  have a: "fst (get_message_text fake_env ''m1'' (world0 fake0)) = Inr ''Hello World''"
    by simp
  have 5: "messages_get fake_env ''m1'' ''full'' (backend (world0 fake_latin1))
             = (Inr (single_part ''6Q==''), fake_latin1)"
    by (simp add: fake_env_def world0_def fake_latin1_def fake0_def)
  have 6: "message_parts (single_part ''6Q=='') = []"
    by (simp add: message_parts_def single_part_def)
  have 7: "message_body_data (single_part ''6Q=='') = Some ''6Q==''"
    by (simp add: message_body_data_def single_part_def)
  have 8: "decode_text ''6Q=='' = Inl UnicodeDecodeError"
    by code_simp
  from get_message_text_single_part [OF 5 6, where d = "''6Q==''" and e = UnicodeDecodeError] 7 8
  have b: "fst (get_message_text fake_env ''m1'' (world0 fake_latin1)) = Inl UnicodeDecodeError"
    by simp
  from a b show ?thesis by (rule conjI)
qed

text \<open>
  C5, as stated, fails: \<open>6Q==\<close> is the base64url encoding of the byte \<open>0xE9\<close>, which is
  not UTF-8. For the single-part message that carries it no text is returned: a
  \<open>UnicodeDecodeError\<close> is raised.
\<close>

theorem single_part_latin1_raises:
  "message_parts (single_part ''6Q=='') = [] \<and>
   message_body_data (single_part ''6Q=='') = Some (urlsafe_b64encode [CHR 0xE9]) \<and>
   fst (get_message_text fake_env ''m1'' (world0 fake_latin1)) = Inl UnicodeDecodeError"
proof (intro conjI)
  show "message_parts (single_part ''6Q=='') = []"
    by (simp add: message_parts_def single_part_def)
  show "message_body_data (single_part ''6Q=='') = Some (urlsafe_b64encode [CHR 0xE9])"
    by (simp add: message_body_data_def single_part_def encode_latin1)
  show "fst (get_message_text fake_env ''m1'' (world0 fake_latin1)) = Inl UnicodeDecodeError"
    by code_simp
qed

text \<open>
  C6, as the code has it. For a message with a non-empty parts list, each of whose
  \<open>text/plain\<close> parts carries the base64url encoding of a text in UTF-8 (\<open>txt p\<close>),
  \<open>get_message_text\<close> returns the concatenation of the texts of exactly the parts of
  type \<open>text/plain\<close>, in the order of the list; parts of any other type are not even
  decoded. When the data of some \<open>text/plain\<close> part does not decode, an exception leaves
  \<open>get_message_text\<close>. For the parts \<open>[text/plain SGVsbG8=, text/html html]\<close> the
  text is \<open>Hello\<close>, whatever \<open>html\<close> is.
\<close>

theorem get_message_text_multi_part:
  assumes "messages_get env msg_id ''full'' (backend w) = (Inr msg, s')"
    and "message_parts msg \<noteq> []"
  shows "((\<forall>p \<in> set (filter is_plain (message_parts msg)).
             part_data p = urlsafe_b64encode (txt p) \<and> utf8_valid (map of_char (txt p))) \<longrightarrow>
          get_message_text env msg_id w =
            (Inr (concat (map txt (filter is_plain (message_parts msg)))),
             w\<lparr>backend := s', calls := calls w @ [MessagesGet msg_id ''full'']\<rparr>)) \<and>
         ((\<exists>p \<in> set (filter is_plain (message_parts msg)). \<exists>e. decode_text (part_data p) = Inl e) \<longrightarrow>
          (\<exists>e. get_message_text env msg_id w =
                 (Inl e, w\<lparr>backend := s', calls := calls w @ [MessagesGet msg_id ''full'']\<rparr>))) \<and>
         message_text (multi_part [text_part ''text/plain'' (urlsafe_b64encode ''Hello''),
                                   text_part ''text/html'' html]) = Inr ''Hello'' \<and>
         urlsafe_b64encode ''Hello'' = ''SGVsbG8=''"
proof (intro conjI impI)
  assume "\<forall>p \<in> set (filter is_plain (message_parts msg)).
             part_data p = urlsafe_b64encode (txt p) \<and> utf8_valid (map of_char (txt p))"
  then have "\<forall>p \<in> set (filter is_plain (message_parts msg)). decode_text (part_data p) = Inr (txt p)"
    by (simp add: decode_text_encode)
  then have "parts_loop (message_parts msg) [] =
               Inr ([] @ concat (map txt (filter is_plain (message_parts msg))))"
    by (rule parts_loop_concat)
  with assms(2) have "message_text msg =
                   Inr (concat (map txt (filter is_plain (message_parts msg))))"
    by (simp add: message_text_def)
  with assms(1) show "get_message_text env msg_id w =
            (Inr (concat (map txt (filter is_plain (message_parts msg)))),
             w\<lparr>backend := s', calls := calls w @ [MessagesGet msg_id ''full'']\<rparr>)"
    by (simp add: get_message_text_Inr)
next
  assume "\<exists>p \<in> set (filter is_plain (message_parts msg)). \<exists>e. decode_text (part_data p) = Inl e"
  then obtain p e where "p \<in> set (message_parts msg)" "is_plain p"
    "decode_text (part_data p) = Inl e" by auto
  then obtain e' where "parts_loop (message_parts msg) [] = Inl e'"
    using parts_loop_raises by blast
  with assms(2) have "message_text msg = Inl e'"
    by (simp add: message_text_def)
  with assms(1) show "\<exists>e. get_message_text env msg_id w =
                 (Inl e, w\<lparr>backend := s', calls := calls w @ [MessagesGet msg_id ''full'']\<rparr>)"
    by (simp add: get_message_text_Inr)
next
  have "decode_text (urlsafe_b64encode ''Hello'') = Inr ''Hello''"
    using decode_hello by (simp add: encode_hello)
  then show "message_text (multi_part [text_part ''text/plain'' (urlsafe_b64encode ''Hello''),
                                   text_part ''text/html'' html]) = Inr ''Hello''"
    by (simp add: message_text_def message_parts_def multi_part_def text_part_def part_data_def)
next
  show "urlsafe_b64encode ''Hello'' = ''SGVsbG8=''" by (rule encode_hello)
qed

theorem get_message_text_multi_part_witness:
  "fst (get_message_text fake_env ''m1'' (world0 fake_multi)) = Inr ''Hello'' \<and>
   (\<exists>e. fst (get_message_text fake_env ''m1'' (world0 fake_multi_latin1)) = Inl e)"
proof -
  let ?ps = "[text_part ''text/plain'' ''SGVsbG8='', text_part ''text/html'' ''...'']"
  have 1: "messages_get fake_env ''m1'' ''full'' (backend (world0 fake_multi))
             = (Inr (multi_part ?ps), fake_multi)"
    by (simp add: fake_env_def world0_def fake_multi_def fake0_def)
  have 2: "message_parts (multi_part ?ps) \<noteq> []"
    by (simp add: message_parts_def multi_part_def)
  have u: "utf8_valid (map of_char ''Hello'')" by code_simp
  have 3: "\<forall>p \<in> set (filter is_plain (message_parts (multi_part ?ps))).
             part_data p = urlsafe_b64encode ((\<lambda>p. ''Hello'') p) \<and>
             utf8_valid (map of_char ((\<lambda>p. ''Hello'') p))"
    using u
    by (simp add: message_parts_def multi_part_def is_plain_def text_part_def part_data_def
                  encode_hello)
  from get_message_text_multi_part [OF 1 2, of "\<lambda>p. ''Hello''"] 3
  have a: "fst (get_message_text fake_env ''m1'' (world0 fake_multi)) = Inr ''Hello''"
    by (simp add: message_parts_def multi_part_def is_plain_def text_part_def)
  let ?qs = "[text_part ''text/plain'' ''SGVsbG8='', text_part ''text/plain'' ''6Q=='']"
  have 4: "messages_get fake_env ''m1'' ''full'' (backend (world0 fake_multi_latin1))
             = (Inr (multi_part ?qs), fake_multi_latin1)"
    by (simp add: fake_env_def world0_def fake_multi_latin1_def fake0_def)
  have 5: "message_parts (multi_part ?qs) \<noteq> []"
    by (simp add: message_parts_def multi_part_def)
  have d: "decode_text ''6Q=='' = Inl UnicodeDecodeError"
    by code_simp
  have 6: "\<exists>p \<in> set (filter is_plain (message_parts (multi_part ?qs))).
             \<exists>e. decode_text (part_data p) = Inl e"
    using d
    by (simp add: message_parts_def multi_part_def is_plain_def text_part_def part_data_def)
  from get_message_text_multi_part [OF 4 5] 6
  have "\<exists>e. get_message_text fake_env ''m1'' (world0 fake_multi_latin1) =
               (Inl e, (world0 fake_multi_latin1)
                  \<lparr>backend := fake_multi_latin1,
                     calls := calls (world0 fake_multi_latin1) @ [MessagesGet ''m1'' ''full'']\<rparr>)"
    by blast
  then have b: "\<exists>e. fst (get_message_text fake_env ''m1'' (world0 fake_multi_latin1)) = Inl e"
    by auto
  from a b show ?thesis by (rule conjI)
qed

text \<open>
  C6, as stated, fails on the parts \<open>[text/plain SGVsbG8=, text/plain 6Q==]\<close>: the
  second carries base64url data that is not UTF-8, and a \<open>UnicodeDecodeError\<close> is
  raised where the claim has a text returned.
\<close>

theorem multi_part_latin1_raises:
  "part_data (text_part ''text/plain'' ''6Q=='') = urlsafe_b64encode [CHR 0xE9] \<and>
   fst (get_message_text fake_env ''m1'' (world0 fake_multi_latin1)) = Inl UnicodeDecodeError"
proof (intro conjI)
  show "part_data (text_part ''text/plain'' ''6Q=='') = urlsafe_b64encode [CHR 0xE9]"
    by (simp add: part_data_def text_part_def encode_latin1)
  show "fst (get_message_text fake_env ''m1'' (world0 fake_multi_latin1)) = Inl UnicodeDecodeError"
    by code_simp
qed

section \<open>Properties of the workflow\<close>

lemma modify_calls_append [simp]: "modify_calls (xs @ ys) = modify_calls xs @ modify_calls ys"
  by (induction xs rule: modify_calls.induct) auto

lemma calls_print_line [simp]: "calls (print_line l w) = calls w"
  by (simp add: print_line_def)

lemma backend_print_line [simp]: "backend (print_line l w) = backend w"
  by (simp add: print_line_def)

lemma out_print_line [simp]: "out (print_line l w) = out w @ [l]"
  by (simp add: print_line_def)

lemma request_world:
  "request c f w = (r, w') \<Longrightarrow>
     r = fst (f (backend w)) \<and> backend w' = snd (f (backend w)) \<and>
     calls w' = calls w @ [c] \<and> out w' = out w"
  by (auto simp: request_def split: prod.splits)

lemma except_HttpError_world:
  "except_HttpError msg d e w = (r, w') \<Longrightarrow> calls w' = calls w \<and> backend w' = backend w"
  by (auto simp: except_HttpError_def split: if_splits)

lemma get_message_text_modify:
  "get_message_text env i w = (r, w') \<Longrightarrow> modify_calls (calls w') = modify_calls (calls w)"
  by (auto simp: get_message_text_def split: prod.splits sum.splits
           dest!: request_world except_HttpError_world)

lemma classify_email_modify:
  "classify_email env t w = (r, w') \<Longrightarrow> modify_calls (calls w') = modify_calls (calls w)"
  by (auto simp: classify_email_def Let_def split: if_splits prod.splits sum.splits option.splits
           dest!: request_world)

lemma get_or_create_label_modify:
  "get_or_create_label env n w = (r, w') \<Longrightarrow> modify_calls (calls w') = modify_calls (calls w)"
  by (auto simp: get_or_create_label_def Let_def split: prod.splits sum.splits option.splits
           dest!: request_world except_HttpError_world)

lemma apply_label_modify:
  "apply_label env i lid w = (r, w') \<Longrightarrow>
     modify_calls (calls w') = modify_calls (calls w) @ [(i, label_mods lid)]"
  by (auto simp: apply_label_def split: prod.splits sum.splits
           dest!: request_world except_HttpError_world)

lemma process_message_modify:
  assumes "process_message env m w = (r, w')"
  shows "modify_calls (calls w') = modify_calls (calls w) \<or>
         (\<exists>lid. lid \<noteq> [] \<and>
            modify_calls (calls w') = modify_calls (calls w) @ [(summary_id m, label_mods lid)])"
  using assms
  by (auto simp: process_message_def Let_def
           split: prod.splits sum.splits if_splits
           dest!: get_message_text_modify classify_email_modify get_or_create_label_modify
                  apply_label_modify)

lemma process_message_free:
  "process_message env m w = (r, w') \<Longrightarrow> empty_label_free (calls w) \<Longrightarrow> empty_label_free (calls w')"
  by (drule process_message_modify) (auto simp: empty_label_free_def label_mods_def)

lemma process_messages_free:
  "process_messages env ms w = (r, w') \<Longrightarrow> empty_label_free (calls w) \<Longrightarrow> empty_label_free (calls w')"
proof (induction ms arbitrary: w)
  case Nil
  then show ?case by simp
next
  case (Cons m ms)
  obtain r1 w1 where p: "process_message env m w = (r1, w1)" by (cases "process_message env m w")
  from process_message_free [OF p Cons.prems(2)] have f: "empty_label_free (calls w1)" .
  show ?case
  proof (cases r1)
    case (Inl e)
    with p Cons.prems(1) f show ?thesis by simp
  next
    case (Inr u)
    with p Cons.prems(1) have "process_messages env ms w1 = (r, w')" by simp
    then show ?thesis using f by (rule Cons.IH)
  qed
qed

lemma fetch_modify:
  "fetch_unread_message_ids env w = (r, w') \<Longrightarrow> modify_calls (calls w') = modify_calls (calls w)"
  by (auto simp: fetch_unread_message_ids_def split: prod.splits sum.splits
           dest!: request_world except_HttpError_world)

lemma main_free:
  assumes "empty_label_free (calls w)"
  shows "empty_label_free (calls (snd (main service w)))"
proof (cases service)
  case None
  with assms show ?thesis by (simp add: main_def Let_def)
next
  case (Some env)
  let ?w = "print_line ''Starting email classification process...'' w"
  obtain r1 w1 where f: "fetch_unread_message_ids env ?w = (r1, w1)"
    by (cases "fetch_unread_message_ids env ?w")
  from fetch_modify [OF f] assms have f1: "empty_label_free (calls w1)"
    by (simp add: empty_label_free_def)
  show ?thesis
  proof (cases r1)
    case (Inl e)
    with Some f f1 show ?thesis by (simp add: main_def Let_def)
  next
    case (Inr ms)
    let ?w2 = "print_line (''Found '' @ str_nat (length ms) @ '' unread emails. Processing...'') w1"
    obtain r2 w2 where p: "process_messages env ms ?w2 = (r2, w2)"
      by (cases "process_messages env ms ?w2")
    from f1 have "empty_label_free (calls ?w2)" by simp
    with p have "empty_label_free (calls w2)" by (rule process_messages_free)
    with Some f f1 Inr p show ?thesis
      by (cases r2) (simp_all add: main_def Let_def)
  qed
qed

text \<open>
  C7. No run issues a modify request that adds the empty label identifier: a trace free
  of such requests stays free of them through \<open>main\<close>. And when label resolution
  yields the empty identifier for a message, the processing of that message ends there,
  successfully, without any modify request.
\<close>

theorem main_never_applies_empty_label:
  "(empty_label_free (calls w) \<longrightarrow> empty_label_free (calls (snd (main service w)))) \<and>
   (get_message_text env (summary_id m) w = (Inr text, w1) \<and> text \<noteq> [] \<and>
    classify_email env text w1 = (Inr category, w2) \<and>
    get_or_create_label env category (print_line (classified_line (summary_id m) category) w2)
      = (Inr [], w3) \<longrightarrow>
    process_message env m w = (Inr (), w3) \<and> modify_calls (calls w3) = modify_calls (calls w))"
proof (intro conjI impI)
  assume "empty_label_free (calls w)"
  then show "empty_label_free (calls (snd (main service w)))" by (rule main_free)
next
  assume a: "get_message_text env (summary_id m) w = (Inr text, w1) \<and> text \<noteq> [] \<and>
    classify_email env text w1 = (Inr category, w2) \<and>
    get_or_create_label env category (print_line (classified_line (summary_id m) category) w2)
      = (Inr [], w3)"
  then show "process_message env m w = (Inr (), w3)"
    by (simp add: process_message_def Let_def)
  from a show "modify_calls (calls w3) = modify_calls (calls w)"
    by (auto dest!: get_message_text_modify classify_email_modify get_or_create_label_modify)
qed


theorem main_never_applies_empty_label_witness:
  "empty_label_free (calls (snd (main (Some fake_env) (world0 fake_unresolved)))) \<and>
   modify_calls (calls (snd (process_message fake_env \<lparr>summary_id = ''m1''\<rparr>
                               (world0 fake_unresolved)))) = [] \<and>
   fk_mailbox (backend (snd (process_message fake_env \<lparr>summary_id = ''m1''\<rparr>
                               (world0 fake_unresolved)))) ''m1'' = {''UNREAD'', ''INBOX''}"
proof -
  let ?m = "\<lparr>summary_id = ''m1''\<rparr>"
  let ?w = "world0 fake_unresolved"
  let ?w1 = "snd (get_message_text fake_env ''m1'' ?w)"
  let ?w2 = "snd (classify_email fake_env ''Hello World'' ?w1)"
  let ?w3 = "snd (get_or_create_label fake_env ''Invoices''
                    (print_line (classified_line ''m1'' ''Invoices'') ?w2))"
  have e: "empty_label_free (calls ?w)"
    by (simp add: empty_label_free_def world0_def)
  have m: "modify_calls (calls ?w) = []"
    by (simp add: world0_def)
  have "fst (get_message_text fake_env ''m1'' ?w) = Inr ''Hello World''" by code_simp
  then have 1: "get_message_text fake_env (summary_id ?m) ?w = (Inr ''Hello World'', ?w1)"
    by (simp add: prod_eq_iff)
  have 2: "''Hello World'' \<noteq> []" by simp
  have "fst (classify_email fake_env ''Hello World'' ?w1) = Inr ''Invoices''" by code_simp
  then have 3: "classify_email fake_env ''Hello World'' ?w1 = (Inr ''Invoices'', ?w2)"
    by (simp add: prod_eq_iff)
  have "fst (get_or_create_label fake_env ''Invoices''
               (print_line (classified_line ''m1'' ''Invoices'') ?w2)) = Inr []"
    by code_simp
  then have 4: "get_or_create_label fake_env ''Invoices''
                  (print_line (classified_line (summary_id ?m) ''Invoices'') ?w2) = (Inr [], ?w3)"
    by (simp add: prod_eq_iff)
  have 5: "fk_mailbox (backend (snd (process_message fake_env ?m ?w))) ''m1''
             = {''UNREAD'', ''INBOX''}"
    by code_simp
  from main_never_applies_empty_label
         [of ?w "Some fake_env" fake_env ?m "''Hello World''" ?w1 "''Invoices''" ?w2 ?w3]
       e m 1 2 3 4 5
  show ?thesis by simp
qed

lemma apply_label_returns:
  assumes "fst (messages_modify env i (label_mods lid) (backend w)) = Inr () \<or>
           fst (messages_modify env i (label_mods lid) (backend w)) = Inl HttpError"
  shows "fst (apply_label env i lid w) = Inr ()"
  using assms
  by (auto simp: apply_label_def request_def except_HttpError_def split: prod.splits sum.splits)

text \<open>
  C10. \<open>apply_label\<close> returns the same value, \<open>None\<close>, when the modify request succeeds
  and when it raises an \<open>HttpError\<close>; and in both cases the processing of a message
  that reached the mutation goes on in the same way: it ends successfully and its last
  printed line is "Successfully labeled and marked as read".
\<close>

theorem apply_label_blind:
  assumes "fst (messages_modify env (summary_id m) (label_mods lid) (backend w3)) = Inr () \<or>
           fst (messages_modify env (summary_id m) (label_mods lid) (backend w3)) = Inl HttpError"
  shows "fst (apply_label env (summary_id m) lid w3) = Inr () \<and>
         (get_message_text env (summary_id m) w = (Inr t, w1) \<and> t \<noteq> [] \<and>
          classify_email env t w1 = (Inr category, w2) \<and>
          get_or_create_label env category
            (print_line (classified_line (summary_id m) category) w2) = (Inr lid, w3) \<and>
          lid \<noteq> [] \<longrightarrow>
          fst (process_message env m w) = Inr () \<and>
          last (out (snd (process_message env m w))) = success_line (summary_id m))"
proof (intro conjI impI)
  from assms show r: "fst (apply_label env (summary_id m) lid w3) = Inr ()"
    by (rule apply_label_returns)
  then obtain w4 where a: "apply_label env (summary_id m) lid w3 = (Inr (), w4)"
    by (cases "apply_label env (summary_id m) lid w3") auto
  assume "get_message_text env (summary_id m) w = (Inr t, w1) \<and> t \<noteq> [] \<and>
          classify_email env t w1 = (Inr category, w2) \<and>
          get_or_create_label env category
            (print_line (classified_line (summary_id m) category) w2) = (Inr lid, w3) \<and>
          lid \<noteq> []"
  with a
  have p: "process_message env m w = (Inr (), print_line (success_line (summary_id m)) w4)"
    by (simp add: process_message_def Let_def)
  then show "fst (process_message env m w) = Inr ()" by simp
  from p show "last (out (snd (process_message env m w))) = success_line (summary_id m)" by simp
qed

theorem apply_label_blind_witness:
  "fk_mailbox (backend (snd (process_message fake_env \<lparr>summary_id = ''m1''\<rparr>
                               (world0 fake_rejected)))) ''m1'' = {''UNREAD'', ''INBOX''} \<and>
   fst (process_message fake_env \<lparr>summary_id = ''m1''\<rparr> (world0 fake_rejected)) = Inr () \<and>
   last (out (snd (process_message fake_env \<lparr>summary_id = ''m1''\<rparr> (world0 fake_rejected))))
     = ''Msg m1: Successfully labeled and marked as read.''"
proof -
  let ?m = "\<lparr>summary_id = ''m1''\<rparr>"
  let ?w = "world0 fake_rejected"
  let ?w1 = "snd (get_message_text fake_env ''m1'' ?w)"
  let ?w2 = "snd (classify_email fake_env ''Hello World'' ?w1)"
  let ?w3 = "snd (get_or_create_label fake_env ''Invoices''
                    (print_line (classified_line ''m1'' ''Invoices'') ?w2))"
  have "fst (get_message_text fake_env ''m1'' ?w) = Inr ''Hello World''" by code_simp
  then have 1: "get_message_text fake_env (summary_id ?m) ?w = (Inr ''Hello World'', ?w1)"
    by (simp add: prod_eq_iff)
  have 2: "''Hello World'' \<noteq> []" by simp
  have "fst (classify_email fake_env ''Hello World'' ?w1) = Inr ''Invoices''" by code_simp
  then have 3: "classify_email fake_env ''Hello World'' ?w1 = (Inr ''Invoices'', ?w2)"
    by (simp add: prod_eq_iff)
  have "fst (get_or_create_label fake_env ''Invoices''
               (print_line (classified_line ''m1'' ''Invoices'') ?w2)) = Inr ''L1''"
    by code_simp
  then have 4: "get_or_create_label fake_env ''Invoices''
                  (print_line (classified_line (summary_id ?m) ''Invoices'') ?w2) = (Inr ''L1'', ?w3)"
    by (simp add: prod_eq_iff)
  have 5: "''L1'' \<noteq> []" by simp
  have "fst (messages_modify fake_env ''m1'' (label_mods ''L1'') (backend ?w3)) = Inl HttpError"
    by code_simp
  then have 6: "fst (messages_modify fake_env (summary_id ?m) (label_mods ''L1'') (backend ?w3)) = Inr () \<or>
         fst (messages_modify fake_env (summary_id ?m) (label_mods ''L1'') (backend ?w3)) = Inl HttpError"
    by simp
  have 7: "fk_mailbox (backend (snd (process_message fake_env ?m ?w))) ''m1'' = {''UNREAD'', ''INBOX''}"
    by code_simp
  have 8: "success_line (summary_id ?m) = ''Msg m1: Successfully labeled and marked as read.''"
    by (simp add: success_line_def)
  from apply_label_blind [OF 6, where w = ?w and t = "''Hello World''" and ?w1.0 = ?w1
         and category = "''Invoices''" and ?w2.0 = ?w2]
       1 2 3 4 5 7 8
  show ?thesis by simp
qed


lemma get_calls_append [simp]: "get_calls (xs @ ys) = get_calls xs @ get_calls ys"
  by (induction xs rule: get_calls.induct) auto

lemma fetch_survives:
  assumes "only_HttpError env"
  shows "\<exists>ms w1. fetch_unread_message_ids env w = (Inr ms, w1) \<and> get_calls (calls w1) = get_calls (calls w)"
  using assms
  by (auto simp: fetch_unread_message_ids_def request_def except_HttpError_def only_HttpError_def
           split: prod.splits sum.splits)
     (metis fst_conv)+


lemma only_HttpError_get:
  "only_HttpError env \<Longrightarrow> messages_get env i f s = (Inl e, s') \<Longrightarrow> e = HttpError"
  unfolding only_HttpError_def by (metis fst_conv)

lemma only_HttpError_labels:
  "only_HttpError env \<Longrightarrow> labels_list env s = (Inl e, s') \<Longrightarrow> e = HttpError"
  unfolding only_HttpError_def by (metis fst_conv)

lemma only_HttpError_create:
  "only_HttpError env \<Longrightarrow> labels_create env nl s = (Inl e, s') \<Longrightarrow> e = HttpError"
  unfolding only_HttpError_def by (metis fst_conv)

lemma only_HttpError_modify:
  "only_HttpError env \<Longrightarrow> messages_modify env i m s = (Inl e, s') \<Longrightarrow> e = HttpError"
  unfolding only_HttpError_def by (metis fst_conv)

lemma decodable_get:
  "decodable env \<Longrightarrow> messages_get env i f s = (Inr msg, s') \<Longrightarrow> \<exists>t. message_text msg = Inr t"
  unfolding decodable_def by (metis fst_conv)

lemma get_message_text_survives:
  assumes "only_HttpError env" and "decodable env"
  shows "\<exists>t w1. get_message_text env i w = (Inr t, w1) \<and>
                 get_calls (calls w1) = get_calls (calls w) @ [i]"
proof (cases "messages_get env i ''full'' (backend w)")
  case (Pair r s')
  show ?thesis
  proof (cases r)
    case (Inl e)
    with Pair assms(1) have "e = HttpError"
      by (simp add: only_HttpError_get)
    with Pair Inl show ?thesis
      by (simp add: get_message_text_def request_def except_HttpError_def)
  next
    case (Inr msg)
    with Pair have g: "messages_get env i ''full'' (backend w) = (Inr msg, s')" by simp
    from decodable_get [OF assms(2) g] obtain t where "message_text msg = Inr t" ..
    with g show ?thesis
      by (simp add: get_message_text_Inr)
  qed
qed

lemma classify_email_survives:
  "\<exists>c w1. classify_email env t w = (Inr c, w1) \<and> get_calls (calls w1) = get_calls (calls w)"
  by (simp add: classify_email_def request_def Let_def split: prod.splits sum.splits option.splits)

lemma get_or_create_label_survives:
  assumes "only_HttpError env"
  shows "\<exists>lid w1. get_or_create_label env n w = (Inr lid, w1) \<and>
                   get_calls (calls w1) = get_calls (calls w)"
proof (cases "labels_list env (backend w)")
  case (Pair r s')
  show ?thesis
  proof (cases r)
    case (Inl e)
    with Pair assms have "e = HttpError"
      by (simp add: only_HttpError_labels)
    with Pair Inl show ?thesis
      by (simp add: get_or_create_label_def request_def except_HttpError_def)
  next
    case (Inr resp)
    show ?thesis
    proof (cases "find_label n (case resp of None \<Rightarrow> [] | Some ls \<Rightarrow> ls)")
      case (Some lid)
      with Pair Inr show ?thesis
        by (simp add: get_or_create_label_def request_def)
    next
      case None
      let ?nl = "\<lparr>new_name = n, labelListVisibility = ''labelShow'', messageListVisibility = ''show''\<rparr>"
      obtain r2 s2 where c: "labels_create env ?nl s' = (r2, s2)"
        by (cases "labels_create env ?nl s'")
      show ?thesis
      proof (cases r2)
        case (Inl e)
        with c assms have "e = HttpError"
          by (simp add: only_HttpError_create)
        with Pair Inr None c Inl show ?thesis
          by (simp add: get_or_create_label_def request_def except_HttpError_def Let_def)
      next
        case created: (Inr created)
        with Pair Inr None c show ?thesis
          by (simp add: get_or_create_label_def request_def Let_def)
      qed
    qed
  qed
qed

lemma apply_label_survives:
  assumes "only_HttpError env"
  shows "\<exists>w1. apply_label env i lid w = (Inr (), w1) \<and> get_calls (calls w1) = get_calls (calls w)"
proof (cases "messages_modify env i (label_mods lid) (backend w)")
  case (Pair r s')
  show ?thesis
  proof (cases r)
    case (Inl e)
    with Pair assms have "e = HttpError"
      by (simp add: only_HttpError_modify)
    with Pair Inl show ?thesis
      by (simp add: apply_label_def request_def except_HttpError_def)
  next
    case (Inr u)
    with Pair show ?thesis
      by (simp add: apply_label_def request_def)
  qed
qed

lemma process_message_survives:
  assumes "only_HttpError env" and "decodable env"
  shows "\<exists>w'. process_message env m w = (Inr (), w') \<and>
              get_calls (calls w') = get_calls (calls w) @ [summary_id m]"
proof -
  let ?i = "summary_id m"
  from get_message_text_survives [OF assms, of ?i w]
  obtain t w1 where 1: "get_message_text env ?i w = (Inr t, w1)"
    and g1: "get_calls (calls w1) = get_calls (calls w) @ [?i]" by blast
  show ?thesis
  proof (cases "t = []")
    case True
    with 1 g1 show ?thesis by (simp add: process_message_def Let_def)
  next
    case False
    from classify_email_survives [of env t w1]
    obtain c w2 where 2: "classify_email env t w1 = (Inr c, w2)"
      and g2: "get_calls (calls w2) = get_calls (calls w1)" by blast
    from get_or_create_label_survives [OF assms(1), of c "print_line (classified_line ?i c) w2"]
    obtain lid w3 where 3: "get_or_create_label env c (print_line (classified_line ?i c) w2) = (Inr lid, w3)"
      and g3: "get_calls (calls w3) = get_calls (calls w2)" by auto
    show ?thesis
    proof (cases "lid = []")
      case True
      with False 1 2 3 g1 g2 g3 show ?thesis by (simp add: process_message_def Let_def)
    next
      case nonempty: False
      from apply_label_survives [OF assms(1), of ?i lid w3]
      obtain w4 where 4: "apply_label env ?i lid w3 = (Inr (), w4)"
        and g4: "get_calls (calls w4) = get_calls (calls w3)" by blast
      with False nonempty 1 2 3 g1 g2 g3 show ?thesis by (simp add: process_message_def Let_def)
    qed
  qed
qed


lemma process_messages_survives:
  assumes "only_HttpError env" and "decodable env"
  shows "\<exists>w'. process_messages env ms w = (Inr (), w') \<and>
              get_calls (calls w') = get_calls (calls w) @ map summary_id ms"
proof (induction ms arbitrary: w)
  case Nil
  show ?case by simp
next
  case (Cons m ms)
  from process_message_survives [OF assms, of m w]
  obtain w1 where 1: "process_message env m w = (Inr (), w1)"
    and g1: "get_calls (calls w1) = get_calls (calls w) @ [summary_id m]" by blast
  from Cons.IH [of w1]
  obtain w' where 2: "process_messages env ms w1 = (Inr (), w')"
    and g2: "get_calls (calls w') = get_calls (calls w1) @ map summary_id ms" by blast
  from 1 2 g1 g2 show ?case by simp
qed



lemma fetch_HttpError:
  assumes "fst (messages_list env ''is:unread'' 10 (backend w)) = Inl HttpError"
  shows "fetch_unread_message_ids env w =
           (Inr [], print_line (''An error occurred while fetching messages: '' @ str_error HttpError)
                      (w\<lparr>backend := snd (messages_list env ''is:unread'' 10 (backend w)),
                         calls := calls w @ [MessagesList ''is:unread'' 10]\<rparr>))"
  using assms
  by (cases "messages_list env ''is:unread'' 10 (backend w)")
     (simp add: fetch_unread_message_ids_def request_def except_HttpError_def)

text \<open>
  C8, as the code has it. When the mail service fails with \<open>HttpError\<close> only and sends
  bodies that decode, no failure ends the run: \<open>main\<close> returns normally, and the
  messages it requested are exactly the fetched identifiers, in order, so a failure in
  the chain of one message is followed by the next message. An \<open>HttpError\<close> of the
  fetch call gives the empty sequence: nothing more is requested and the run ends with
  "No unread messages found.". (A failure of the model call never ends the run either:
  see C2.)
\<close>

theorem main_survives_HttpError:
  assumes "only_HttpError env" and "decodable env"
  shows "fst (main (Some env) w) = Inr () \<and>
         (\<exists>ms w1. fetch_unread_message_ids env
                     (print_line ''Starting email classification process...'' w) = (Inr ms, w1) \<and>
                   get_calls (calls (snd (main (Some env) w)))
                     = get_calls (calls w) @ map summary_id ms) \<and>
         (fst (messages_list env ''is:unread'' 10 (backend w)) = Inl HttpError \<longrightarrow>
            fst (fetch_unread_message_ids env
                   (print_line ''Starting email classification process...'' w)) = Inr [] \<and>
            calls (snd (main (Some env) w)) = calls w @ [MessagesList ''is:unread'' 10] \<and>
            last (out (snd (main (Some env) w))) = ''No unread messages found.'')"
proof -
  let ?w = "print_line ''Starting email classification process...'' w"
  from fetch_survives [OF assms(1), of ?w]
  obtain ms w1 where f: "fetch_unread_message_ids env ?w = (Inr ms, w1)"
    and g: "get_calls (calls w1) = get_calls (calls w)" by auto
  let ?w2 = "print_line (''Found '' @ str_nat (length ms) @ '' unread emails. Processing...'') w1"
  from process_messages_survives [OF assms, of ms ?w2]
  obtain w' where p: "process_messages env ms ?w2 = (Inr (), w')"
    and g': "get_calls (calls w') = get_calls (calls w1) @ map summary_id ms" by auto
  have a: "fst (main (Some env) w) = Inr ()"
    using f p by (simp add: main_def Let_def)
  have b: "get_calls (calls (snd (main (Some env) w))) = get_calls (calls w) @ map summary_id ms"
    using f p g g' by (simp add: main_def Let_def)
  have c: "fst (fetch_unread_message_ids env ?w) = Inr [] \<and>
           calls (snd (main (Some env) w)) = calls w @ [MessagesList ''is:unread'' 10] \<and>
           last (out (snd (main (Some env) w))) = ''No unread messages found.''"
    if h: "fst (messages_list env ''is:unread'' 10 (backend w)) = Inl HttpError"
  proof -
    from h have "fst (messages_list env ''is:unread'' 10 (backend ?w)) = Inl HttpError" by simp
    from fetch_HttpError [OF this] show ?thesis
      by (simp add: main_def Let_def)
  qed
  from a have 1: "fst (main (Some env) w) = Inr ()" .
  from f b have 2: "\<exists>ms w1. fetch_unread_message_ids env ?w = (Inr ms, w1) \<and>
                   get_calls (calls (snd (main (Some env) w)))
                     = get_calls (calls w) @ map summary_id ms" by blast
  from 1 2 c show ?thesis by (intro conjI impI) auto
qed


theorem main_survives_HttpError_witness:
  "fst (main (Some flaky_env) (world0 0)) = Inr () \<and>
   get_calls (calls (snd (main (Some flaky_env) (world0 0)))) = [''m1'', ''m2''] \<and>
   fst (main (Some flaky_env) (world0 1)) = Inr () \<and>
   calls (snd (main (Some flaky_env) (world0 1))) = [MessagesList ''is:unread'' 10] \<and>
   last (out (snd (main (Some flaky_env) (world0 1)))) = ''No unread messages found.''"
proof -
  have 1: "only_HttpError flaky_env"
    by (simp add: only_HttpError_def flaky_env_def)
  have 2: "decodable flaky_env"
    using decode_hello_world
    by (simp add: decodable_def flaky_env_def message_text_def message_parts_def
                  message_body_data_def single_part_def)
  have 3: "fetch_unread_message_ids flaky_env
             (print_line ''Starting email classification process...'' (world0 0))
           = (Inr [\<lparr>summary_id = ''m1''\<rparr>, \<lparr>summary_id = ''m2''\<rparr>],
              \<lparr>backend = Suc 0, calls = [MessagesList ''is:unread'' 10],
               out = [''Starting email classification process...'']\<rparr>)"
    by (simp add: fetch_unread_message_ids_def request_def flaky_env_def world0_def print_line_def)
  have 4: "get_calls (calls (world0 (0::nat))) = []"
    by (simp add: world0_def)
  from main_survives_HttpError [OF 1 2, of "world0 0"] 3 4
  have a: "fst (main (Some flaky_env) (world0 0)) = Inr () \<and>
           get_calls (calls (snd (main (Some flaky_env) (world0 0)))) = [''m1'', ''m2'']"
    by simp
  have 5: "fst (messages_list flaky_env ''is:unread'' 10 (backend (world0 1))) = Inl HttpError"
    by (simp add: flaky_env_def world0_def)
  have 6: "calls (world0 (1::nat)) = []"
    by (simp add: world0_def)
  from main_survives_HttpError [OF 1 2, of "world0 1"] 5 6
  have b: "fst (main (Some flaky_env) (world0 1)) = Inr () \<and>
           calls (snd (main (Some flaky_env) (world0 1))) = [MessagesList ''is:unread'' 10] \<and>
           last (out (snd (main (Some flaky_env) (world0 1)))) = ''No unread messages found.''"
    by simp
  from a b show ?thesis by simp
qed

text \<open>
  C8, as stated, fails: an exception other than \<open>HttpError\<close> is caught nowhere in the
  mail stages. Here the body of \<open>m1\<close> does not decode; the \<open>UnicodeDecodeError\<close> leaves
  \<open>get_message_text\<close> and \<open>main\<close>, and \<open>m2\<close> is never requested.
\<close>

theorem main_aborted_by_decoding:
  "fst (main (Some fake_env) (world0 fake_latin1)) = Inl UnicodeDecodeError \<and>
   get_calls (calls (snd (main (Some fake_env) (world0 fake_latin1)))) = [''m1'']"
proof
  show "fst (main (Some fake_env) (world0 fake_latin1)) = Inl UnicodeDecodeError"
    by code_simp
  show "get_calls (calls (snd (main (Some fake_env) (world0 fake_latin1)))) = [''m1'']"
    by code_simp
qed


section \<open>The state of a message\<close>

lemma request_labels:
  assumes "request c f w = (r, w')" and "\<And>s. L (snd (f s)) = L s"
  shows "L (backend w') = L (backend w)"
  using assms by (auto simp: request_def split: prod.splits) (metis snd_conv)

lemma except_HttpError_labels:
  "except_HttpError msg d e w = (r, w') \<Longrightarrow> L (backend w') = L (backend w)"
  by (auto simp: except_HttpError_def split: if_splits)

lemma fetch_labels:
  assumes "mail_model env L" and "fetch_unread_message_ids env w = (r, w')"
  shows "L (backend w') = L (backend w)"
proof -
  obtain r1 w1 where q: "request (MessagesList ''is:unread'' 10)
       (messages_list env ''is:unread'' 10) w = (r1, w1)"
    by (cases "request (MessagesList ''is:unread'' 10) (messages_list env ''is:unread'' 10) w")
  from assms(1) have "\<And>s. L (snd (messages_list env ''is:unread'' 10 s)) = L s"
    by (simp add: mail_model_def)
  with q have 1: "L (backend w1) = L (backend w)" by (rule request_labels)
  from assms(2) q show ?thesis
    using 1 by (auto simp: fetch_unread_message_ids_def split: sum.splits dest: except_HttpError_labels [where L = L])
qed

lemma get_message_text_labels:
  assumes "mail_model env L" and "get_message_text env i w = (r, w')"
  shows "L (backend w') = L (backend w)"
proof -
  obtain r1 w1 where q: "request (MessagesGet i ''full'') (messages_get env i ''full'') w = (r1, w1)"
    by (cases "request (MessagesGet i ''full'') (messages_get env i ''full'') w")
  from assms(1) have "\<And>s. L (snd (messages_get env i ''full'' s)) = L s"
    by (simp add: mail_model_def)
  with q have 1: "L (backend w1) = L (backend w)" by (rule request_labels)
  from assms(2) q show ?thesis
    using 1 by (auto simp: get_message_text_def split: sum.splits dest: except_HttpError_labels [where L = L])
qed

lemma classify_email_labels:
  assumes "mail_model env L" and "classify_email env t w = (r, w')"
  shows "L (backend w') = L (backend w)"
proof (cases "t = []")
  case True
  with assms(2) show ?thesis by (simp add: classify_email_def)
next
  case False
  let ?c = "GenerateContent classify_model (classify_prompt t) system_instruction"
  let ?f = "generate_content env classify_model (classify_prompt t) system_instruction"
  obtain r1 w1 where q: "request ?c ?f w = (r1, w1)" by (cases "request ?c ?f w")
  from assms(1) have "\<And>s. L (snd (?f s)) = L s"
    by (simp add: mail_model_def)
  with q have 1: "L (backend w1) = L (backend w)" by (rule request_labels)
  from assms(2) q False show ?thesis
    using 1 by (auto simp: classify_email_def Let_def split: sum.splits option.splits if_splits)
qed

lemma get_or_create_label_labels:
  assumes "mail_model env L" and "get_or_create_label env n w = (r, w')"
  shows "L (backend w') = L (backend w)"
proof -
  let ?nl = "\<lparr>new_name = n, labelListVisibility = ''labelShow'', messageListVisibility = ''show''\<rparr>"
  obtain r1 w1 where q: "request LabelsList (labels_list env) w = (r1, w1)"
    by (cases "request LabelsList (labels_list env) w")
  obtain r2 w2 where c: "request (LabelsCreate ?nl) (labels_create env ?nl) w1 = (r2, w2)"
    by (cases "request (LabelsCreate ?nl) (labels_create env ?nl) w1")
  from assms(1) have "\<And>s. L (snd (labels_list env s)) = L s"
    by (simp add: mail_model_def)
  with q have 1: "L (backend w1) = L (backend w)" by (rule request_labels)
  from assms(1) have "\<And>s. L (snd (labels_create env ?nl s)) = L s"
    by (simp add: mail_model_def)
  with c have 2: "L (backend w2) = L (backend w1)" by (rule request_labels)
  from assms(2) q c show ?thesis
    using 1 2
    by (auto simp: get_or_create_label_def Let_def split: sum.splits option.splits
             dest: except_HttpError_labels [where L = L])
qed

lemma apply_label_labels:
  assumes "mail_model env L" and "apply_label env i lid w = (r, w')"
  shows "L (backend w') = L (backend w) \<or> L (backend w') = relabel i lid (L (backend w))"
proof -
  obtain r1 s1 where m: "messages_modify env i (label_mods lid) (backend w) = (r1, s1)"
    by (cases "messages_modify env i (label_mods lid) (backend w)")
  from assms(1) have "L (snd (messages_modify env i (label_mods lid) (backend w))) =
        (case fst (messages_modify env i (label_mods lid) (backend w)) of
           Inl e \<Rightarrow> L (backend w)
         | Inr u \<Rightarrow> (L (backend w))
             (i := (L (backend w) i \<union> set (addLabelIds (label_mods lid))) - set (removeLabelIds (label_mods lid))))"
    unfolding mail_model_def by blast
  with m have 1: "L s1 = (case r1 of Inl e \<Rightarrow> L (backend w) | Inr u \<Rightarrow> relabel i lid (L (backend w)))"
    by (simp add: label_mods_def relabel_def split: sum.splits)
  from assms(2) m 1 show ?thesis
    by (auto simp: apply_label_def request_def except_HttpError_def split: sum.splits if_splits)
qed


lemma process_message_labels:
  assumes "mail_model env L" and "process_message env m w = (r, w')"
  shows "L (backend w') = L (backend w) \<or>
         (\<exists>lid. lid \<noteq> [] \<and> L (backend w') = relabel (summary_id m) lid (L (backend w)))"
proof -
  let ?i = "summary_id m"
  obtain r1 w1 where 1: "get_message_text env ?i w = (r1, w1)"
    by (cases "get_message_text env ?i w")
  from get_message_text_labels [OF assms(1) 1] have l1: "L (backend w1) = L (backend w)" .
  show ?thesis
  proof (cases r1)
    case (Inl e)
    with assms(2) 1 l1 show ?thesis by (simp add: process_message_def Let_def)
  next
    case (Inr t)
    show ?thesis
    proof (cases "t = []")
      case True
      with assms(2) 1 Inr l1 show ?thesis by (auto simp: process_message_def Let_def)
    next
      case False
      obtain r2 w2 where 2: "classify_email env t w1 = (r2, w2)"
        by (cases "classify_email env t w1")
      from classify_email_labels [OF assms(1) 2] have l2: "L (backend w2) = L (backend w1)" .
      show ?thesis
      proof (cases r2)
        case (Inl e)
        with assms(2) 1 \<open>r1 = Inr t\<close> False 2 l1 l2 show ?thesis
          by (simp add: process_message_def Let_def)
      next
        case c: (Inr c)
        obtain r3 w3 where 3: "get_or_create_label env c (print_line (classified_line ?i c) w2) = (r3, w3)"
          by (cases "get_or_create_label env c (print_line (classified_line ?i c) w2)")
        from get_or_create_label_labels [OF assms(1) 3]
        have l3: "L (backend w3) = L (backend w2)" by simp
        show ?thesis
        proof (cases r3)
          case (Inl e)
          with assms(2) 1 Inr False 2 c 3 l1 l2 l3 show ?thesis
            by (simp add: process_message_def Let_def)
        next
          case lid: (Inr lid)
          show ?thesis
          proof (cases "lid = []")
            case True
            with assms(2) 1 Inr False 2 c 3 lid l1 l2 l3 show ?thesis
              by (simp add: process_message_def Let_def)
          next
            case nonempty: False
            obtain r4 w4 where 4: "apply_label env ?i lid w3 = (r4, w4)"
              by (cases "apply_label env ?i lid w3")
            from apply_label_labels [OF assms(1) 4] l1 l2 l3
            have l4: "L (backend w4) = L (backend w) \<or>
                      L (backend w4) = relabel ?i lid (L (backend w))" by simp
            have "backend w' = backend w4"
              using assms(2) 1 Inr False 2 c 3 lid nonempty 4
              by (cases r4) (auto simp: process_message_def Let_def)
            with l4 nonempty show ?thesis by auto
          qed
        qed
      qed
    qed
  qed
qed


lemma process_message_no_text:
  assumes "mail_model env L"
    and "\<forall>t. fst (get_message_text env (summary_id m) w) = Inr t \<longrightarrow> t = []"
  shows "L (backend (snd (process_message env m w))) = L (backend w)"
proof -
  let ?i = "summary_id m"
  obtain r1 w1 where 1: "get_message_text env ?i w = (r1, w1)"
    by (cases "get_message_text env ?i w")
  from get_message_text_labels [OF assms(1) 1] have l1: "L (backend w1) = L (backend w)" .
  show ?thesis
  proof (cases r1)
    case (Inl e)
    with 1 l1 show ?thesis by (simp add: process_message_def Let_def)
  next
    case (Inr t)
    with 1 assms(2) have "t = []" by simp
    with 1 Inr l1 show ?thesis by (simp add: process_message_def Let_def)
  qed
qed

lemma process_message_no_label:
  assumes "mail_model env L"
    and "get_message_text env (summary_id m) w = (Inr t, w1)"
    and "classify_email env t w1 = (Inr c, w2)"
    and "\<forall>lid. fst (get_or_create_label env c
                       (print_line (classified_line (summary_id m) c) w2)) = Inr lid \<longrightarrow> lid = []"
  shows "L (backend (snd (process_message env m w))) = L (backend w)"
proof -
  let ?i = "summary_id m"
  from get_message_text_labels [OF assms(1,2)] have l1: "L (backend w1) = L (backend w)" .
  from classify_email_labels [OF assms(1,3)] have l2: "L (backend w2) = L (backend w1)" .
  obtain r3 w3 where 3: "get_or_create_label env c (print_line (classified_line ?i c) w2) = (r3, w3)"
    by (cases "get_or_create_label env c (print_line (classified_line ?i c) w2)")
  from get_or_create_label_labels [OF assms(1) 3]
  have l3: "L (backend w3) = L (backend w2)" by simp
  show ?thesis
  proof (cases "t = []")
    case True
    with assms(2) l1 show ?thesis by (simp add: process_message_def Let_def)
  next
    case False
    show ?thesis
    proof (cases r3)
      case (Inl e)
      with assms(2,3) False 3 l1 l2 l3 show ?thesis by (simp add: process_message_def Let_def)
    next
      case (Inr lid)
      with 3 assms(4) have "lid = []" by simp
      with assms(2,3) False 3 Inr l1 l2 l3 show ?thesis by (simp add: process_message_def Let_def)
    qed
  qed
qed

lemma classify_email_category:
  "classify_email env t w = (Inr c, w') \<Longrightarrow> c \<in> set CATEGORIES"
  using classify_email_cases [of env t w] by (auto simp: CATEGORIES_def)

lemma process_message_labelled:
  assumes "mail_model env L"
    and "get_message_text env (summary_id m) w = (Inr t, w1)" and "t \<noteq> []"
    and "classify_email env t w1 = (Inr c, w2)"
    and "get_or_create_label env c (print_line (classified_line (summary_id m) c) w2)
           = (Inr lid, w3)"
    and "lid \<noteq> []"
    and "fst (messages_modify env (summary_id m) (label_mods lid) (backend w3)) = Inr ()"
  shows "L (backend (snd (process_message env m w))) = relabel (summary_id m) lid (L (backend w))"
proof -
  let ?i = "summary_id m"
  from get_message_text_labels [OF assms(1,2)] have l1: "L (backend w1) = L (backend w)" .
  from classify_email_labels [OF assms(1,4)] have l2: "L (backend w2) = L (backend w1)" .
  from get_or_create_label_labels [OF assms(1,5)]
  have l3: "L (backend w3) = L (backend w2)" by simp
  obtain r1 s1 where m: "messages_modify env ?i (label_mods lid) (backend w3) = (r1, s1)"
    by (cases "messages_modify env ?i (label_mods lid) (backend w3)")
  with assms(7) have r1: "r1 = Inr ()" by simp
  from assms(1) have "L (snd (messages_modify env ?i (label_mods lid) (backend w3))) =
        (case fst (messages_modify env ?i (label_mods lid) (backend w3)) of
           Inl e \<Rightarrow> L (backend w3)
         | Inr u \<Rightarrow> (L (backend w3))
             (?i := (L (backend w3) ?i \<union> set (addLabelIds (label_mods lid)))
                    - set (removeLabelIds (label_mods lid))))"
    unfolding mail_model_def by blast
  with m r1 have 1: "L s1 = relabel ?i lid (L (backend w3))"
    by (simp add: label_mods_def relabel_def)
  from m r1 have "apply_label env ?i lid w3
      = (Inr (), w3\<lparr>backend := s1, calls := calls w3 @ [MessagesModify ?i (label_mods lid)]\<rparr>)"
    by (simp add: apply_label_def request_def)
  with assms(2-6) have "backend (snd (process_message env m w)) = s1"
    by (simp add: process_message_def Let_def)
  with 1 l1 l2 l3 show ?thesis by simp
qed

lemma process_message_at:
  assumes "mail_model env L" and "process_message env m w = (r, w')"
  shows "(i \<noteq> summary_id m \<longrightarrow> L (backend w') i = L (backend w) i) \<and>
         (L (backend w') i = L (backend w) i \<or>
          (\<exists>lid. lid \<noteq> [] \<and> L (backend w') i = insert lid (L (backend w) i) - {''UNREAD''}))"
proof -
  from process_message_labels [OF assms]
  consider "L (backend w') = L (backend w)"
    | lid where "lid \<noteq> []" and "L (backend w') = relabel (summary_id m) lid (L (backend w))"
    by blast
  then show ?thesis
  proof cases
    case 1
    then show ?thesis by simp
  next
    case 2
    show ?thesis
    proof (cases "i = summary_id m")
      case True
      with 2 have "L (backend w') i = insert lid (L (backend w) i) - {''UNREAD''}"
        by (simp add: relabel_def)
      with 2(1) True show ?thesis by blast
    next
      case False
      with 2 show ?thesis by (simp add: relabel_def)
    qed
  qed
qed

lemma process_messages_others:
  assumes "mail_model env L"
  shows "i \<notin> set (map summary_id ms) \<Longrightarrow> process_messages env ms w = (r, w') \<Longrightarrow>
         L (backend w') i = L (backend w) i"
proof (induction ms arbitrary: w)
  case Nil
  then show ?case by simp
next
  case (Cons m ms)
  obtain r1 w1 where 1: "process_message env m w = (r1, w1)"
    by (cases "process_message env m w")
  from Cons.prems(1) have ne: "i \<noteq> summary_id m" and rest: "i \<notin> set (map summary_id ms)"
    by auto
  from process_message_at [OF assms 1, of i] ne
  have first: "L (backend w1) i = L (backend w) i" by simp
  show ?case
  proof (cases r1)
    case (Inl e)
    with 1 Cons.prems(2) first show ?thesis by simp
  next
    case (Inr u)
    with 1 Cons.prems(2) have "process_messages env ms w1 = (r, w')" by simp
    from Cons.IH [OF rest this] first show ?thesis by simp
  qed
qed

lemma process_messages_labels:
  assumes "mail_model env L"
  shows "distinct (map summary_id ms) \<Longrightarrow> process_messages env ms w = (r, w') \<Longrightarrow>
         L (backend w') i = L (backend w) i \<or>
         (\<exists>lid. lid \<noteq> [] \<and> L (backend w') i = insert lid (L (backend w) i) - {''UNREAD''})"
proof (induction ms arbitrary: w)
  case Nil
  then show ?case by simp
next
  case (Cons m ms)
  obtain r1 w1 where 1: "process_message env m w = (r1, w1)"
    by (cases "process_message env m w")
  from process_message_at [OF assms 1, of i]
  have ne: "i \<noteq> summary_id m \<Longrightarrow> L (backend w1) i = L (backend w) i"
    and first: "L (backend w1) i = L (backend w) i \<or>
         (\<exists>lid. lid \<noteq> [] \<and> L (backend w1) i = insert lid (L (backend w) i) - {''UNREAD''})"
    by auto
  show ?case
  proof (cases r1)
    case (Inl e)
    with 1 Cons.prems(2) have "w' = w1" by simp
    with first show ?thesis by simp
  next
    case (Inr u)
    with 1 Cons.prems(2) have rest: "process_messages env ms w1 = (r, w')" by simp
    from Cons.prems(1) have d: "distinct (map summary_id ms)"
      and notin: "summary_id m \<notin> set (map summary_id ms)" by auto
    show ?thesis
    proof (cases "i = summary_id m")
      case True
      with notin have "i \<notin> set (map summary_id ms)" by simp
      from process_messages_others [OF assms this rest]
      have "L (backend w') i = L (backend w1) i" .
      with first show ?thesis by simp
    next
      case False
      from Cons.IH [OF d rest] ne [OF False] show ?thesis by simp
    qed
  qed
qed

lemma fetch_response:
  assumes "fetch_unread_message_ids env w = (Inr ms, w')"
  shows "ms = [] \<or> fst (messages_list env ''is:unread'' 10 (backend w)) = Inr (Some ms)"
  using assms
  by (auto simp: fetch_unread_message_ids_def request_def except_HttpError_def
           split: prod.splits sum.splits option.splits if_splits)

lemma main_labels:
  assumes "mail_model env L"
    and "\<forall>ms. fst (messages_list env ''is:unread'' 10 (backend w)) = Inr (Some ms) \<longrightarrow>
              distinct (map summary_id ms)"
  shows "L (backend (snd (main (Some env) w))) i = L (backend w) i \<or>
         (\<exists>lid. lid \<noteq> [] \<and>
            L (backend (snd (main (Some env) w))) i = insert lid (L (backend w) i) - {''UNREAD''})"
proof -
  let ?w = "print_line ''Starting email classification process...'' w"
  obtain r1 w1 where f: "fetch_unread_message_ids env ?w = (r1, w1)"
    by (cases "fetch_unread_message_ids env ?w")
  from fetch_labels [OF assms(1) f] have l1: "L (backend w1) = L (backend w)" by simp
  show ?thesis
  proof (cases r1)
    case (Inl e)
    with f l1 show ?thesis by (simp add: main_def Let_def)
  next
    case (Inr ms)
    show ?thesis
    proof (cases "ms = []")
      case True
      with f Inr l1 show ?thesis by (simp add: main_def Let_def)
    next
      case False
      with f Inr fetch_response [of env ?w ms w1]
      have "fst (messages_list env ''is:unread'' 10 (backend w)) = Inr (Some ms)" by simp
      with assms(2) have d: "distinct (map summary_id ms)" by simp
      let ?w2 = "print_line (''Found '' @ str_nat (length ms) @ '' unread emails. Processing...'') w1"
      obtain r2 w2 where p: "process_messages env ms ?w2 = (r2, w2)"
        by (cases "process_messages env ms ?w2")
      from process_messages_labels [OF assms(1) d p, of i] l1
      have g: "L (backend w2) i = L (backend w) i \<or>
         (\<exists>lid. lid \<noteq> [] \<and> L (backend w2) i = insert lid (L (backend w) i) - {''UNREAD''})"
        by simp
      have "backend (snd (main (Some env) w)) = backend w2"
        using f Inr False p by (cases r2) (simp_all add: main_def Let_def)
      with g show ?thesis by simp
    qed
  qed
qed



text \<open>
  C1, as the code has it. Over a mail service as in \<open>mail_model\<close>:
  \<^item> a run that fetched distinct identifiers leaves every message either with the labels
    it had, or with exactly one label added, a non-empty identifier, and \<open>UNREAD\<close>
    removed;
  \<^item> the processing of one message leaves all labels as they were, or changes those
    of this message only, in that way;
  \<^item> they are as they were whenever text extraction raises or yields no text, and
    whenever label resolution raises or yields the empty identifier;
  \<^item> and when every stage succeeds and the modification is accepted, the label added
    is the one resolved for the category of the message, a member of \<open>CATEGORIES\<close>.
  The labels the message carried before are kept: it carries exactly one category label
  only if it carried none.
\<close>

theorem terminal_states:
  assumes "mail_model env L"
  shows
    "((\<forall>ms. fst (messages_list env ''is:unread'' 10 (backend w)) = Inr (Some ms) \<longrightarrow>
            distinct (map summary_id ms)) \<longrightarrow>
      (\<forall>i. L (backend (snd (main (Some env) w))) i = L (backend w) i \<or>
           (\<exists>lid. lid \<noteq> [] \<and>
              L (backend (snd (main (Some env) w))) i
                = insert lid (L (backend w) i) - {''UNREAD''}))) \<and>
     (L (backend (snd (process_message env m v))) = L (backend v) \<or>
      (\<exists>lid. lid \<noteq> [] \<and>
         L (backend (snd (process_message env m v))) = relabel (summary_id m) lid (L (backend v)))) \<and>
     ((\<forall>t. fst (get_message_text env (summary_id m) v) = Inr t \<longrightarrow> t = []) \<longrightarrow>
      L (backend (snd (process_message env m v))) = L (backend v)) \<and>
     (get_message_text env (summary_id m) v = (Inr t, v1) \<and>
      classify_email env t v1 = (Inr c, v2) \<and>
      (\<forall>lid. fst (get_or_create_label env c
                    (print_line (classified_line (summary_id m) c) v2)) = Inr lid \<longrightarrow> lid = []) \<longrightarrow>
      L (backend (snd (process_message env m v))) = L (backend v)) \<and>
     (get_message_text env (summary_id m) v = (Inr t, v1) \<and> t \<noteq> [] \<and>
      classify_email env t v1 = (Inr c, v2) \<and>
      get_or_create_label env c (print_line (classified_line (summary_id m) c) v2) = (Inr l, v3) \<and>
      l \<noteq> [] \<and>
      fst (messages_modify env (summary_id m) (label_mods l) (backend v3)) = Inr () \<longrightarrow>
      c \<in> set CATEGORIES \<and>
      L (backend (snd (process_message env m v))) = relabel (summary_id m) l (L (backend v)))"
proof (intro conjI impI allI)
  fix i
  assume "\<forall>ms. fst (messages_list env ''is:unread'' 10 (backend w)) = Inr (Some ms) \<longrightarrow>
            distinct (map summary_id ms)"
  with assms show "L (backend (snd (main (Some env) w))) i = L (backend w) i \<or>
           (\<exists>lid. lid \<noteq> [] \<and>
              L (backend (snd (main (Some env) w))) i
                = insert lid (L (backend w) i) - {''UNREAD''})"
    by (rule main_labels)
next
  show "L (backend (snd (process_message env m v))) = L (backend v) \<or>
      (\<exists>lid. lid \<noteq> [] \<and>
         L (backend (snd (process_message env m v))) = relabel (summary_id m) lid (L (backend v)))"
    using process_message_labels [OF assms, of m v] by (cases "process_message env m v") simp
next
  assume "\<forall>t. fst (get_message_text env (summary_id m) v) = Inr t \<longrightarrow> t = []"
  with assms show "L (backend (snd (process_message env m v))) = L (backend v)"
    by (rule process_message_no_text)
next
  assume "get_message_text env (summary_id m) v = (Inr t, v1) \<and>
      classify_email env t v1 = (Inr c, v2) \<and>
      (\<forall>lid. fst (get_or_create_label env c
                    (print_line (classified_line (summary_id m) c) v2)) = Inr lid \<longrightarrow> lid = [])"
  with assms show "L (backend (snd (process_message env m v))) = L (backend v)"
    by (blast intro: process_message_no_label)
next
  assume a: "get_message_text env (summary_id m) v = (Inr t, v1) \<and> t \<noteq> [] \<and>
      classify_email env t v1 = (Inr c, v2) \<and>
      get_or_create_label env c (print_line (classified_line (summary_id m) c) v2) = (Inr l, v3) \<and>
      l \<noteq> [] \<and>
      fst (messages_modify env (summary_id m) (label_mods l) (backend v3)) = Inr ()"
  then show "c \<in> set CATEGORIES" by (blast intro: classify_email_category)
  from a assms show "L (backend (snd (process_message env m v))) = relabel (summary_id m) l (L (backend v))"
    by (blast intro: process_message_labelled)
qed


lemma mail_model_fake: "mail_model fake_env fk_mailbox"
  by (simp add: mail_model_def fake_env_def Let_def split: option.splits)

theorem terminal_states_witness:
  "fk_mailbox (backend (snd (process_message fake_env \<lparr>summary_id = ''m1''\<rparr> (world0 fake0))))
     = relabel ''m1'' ''L1'' (fk_mailbox fake0) \<and>
   fk_mailbox (backend (snd (process_message fake_env \<lparr>summary_id = ''m1''\<rparr>
                               (world0 fake_unresolved))))
     = fk_mailbox fake_unresolved"
proof -
  let ?m = "\<lparr>summary_id = ''m1''\<rparr>"
  let ?v = "world0 fake0"
  let ?v1 = "snd (get_message_text fake_env ''m1'' ?v)"
  let ?v2 = "snd (classify_email fake_env ''Hello World'' ?v1)"
  let ?v3 = "snd (get_or_create_label fake_env ''Invoices''
                    (print_line (classified_line ''m1'' ''Invoices'') ?v2))"
  have "fst (get_message_text fake_env ''m1'' ?v) = Inr ''Hello World''" by code_simp
  then have 1: "get_message_text fake_env (summary_id ?m) ?v = (Inr ''Hello World'', ?v1)"
    by (simp add: prod_eq_iff)
  have 2: "''Hello World'' \<noteq> []" by simp
  have "fst (classify_email fake_env ''Hello World'' ?v1) = Inr ''Invoices''" by code_simp
  then have 3: "classify_email fake_env ''Hello World'' ?v1 = (Inr ''Invoices'', ?v2)"
    by (simp add: prod_eq_iff)
  have "fst (get_or_create_label fake_env ''Invoices''
               (print_line (classified_line ''m1'' ''Invoices'') ?v2)) = Inr ''L1''"
    by code_simp
  then have 4: "get_or_create_label fake_env ''Invoices''
                  (print_line (classified_line (summary_id ?m) ''Invoices'') ?v2) = (Inr ''L1'', ?v3)"
    by (simp add: prod_eq_iff)
  have 5: "''L1'' \<noteq> []" by simp
  have "fst (messages_modify fake_env ''m1'' (label_mods ''L1'') (backend ?v3)) = Inr ()"
    by code_simp
  then have 6: "fst (messages_modify fake_env (summary_id ?m) (label_mods ''L1'') (backend ?v3)) = Inr ()"
    by simp
  have b0: "backend ?v = fake0" by (simp add: world0_def)
  from terminal_states [OF mail_model_fake, where m = ?m and v = ?v and t = "''Hello World''"
         and ?v1.0 = ?v1 and c = "''Invoices''" and ?v2.0 = ?v2 and l = "''L1''" and ?v3.0 = ?v3]
       1 2 3 4 5 6
  have a: "fk_mailbox (backend (snd (process_message fake_env ?m ?v)))
             = relabel (summary_id ?m) ''L1'' (fk_mailbox (backend ?v))"
    by blast
  let ?u = "world0 fake_unresolved"
  let ?u1 = "snd (get_message_text fake_env ''m1'' ?u)"
  let ?u2 = "snd (classify_email fake_env ''Hello World'' ?u1)"
  have "fst (get_message_text fake_env ''m1'' ?u) = Inr ''Hello World''" by code_simp
  then have 7: "get_message_text fake_env (summary_id ?m) ?u = (Inr ''Hello World'', ?u1)"
    by (simp add: prod_eq_iff)
  have "fst (classify_email fake_env ''Hello World'' ?u1) = Inr ''Invoices''" by code_simp
  then have 8: "classify_email fake_env ''Hello World'' ?u1 = (Inr ''Invoices'', ?u2)"
    by (simp add: prod_eq_iff)
  have "fst (get_or_create_label fake_env ''Invoices''
               (print_line (classified_line ''m1'' ''Invoices'') ?u2)) = Inr []"
    by code_simp
  then have 9: "\<forall>lid. fst (get_or_create_label fake_env ''Invoices''
               (print_line (classified_line (summary_id ?m) ''Invoices'') ?u2)) = Inr lid \<longrightarrow> lid = []"
    by simp
  from terminal_states [OF mail_model_fake, where m = ?m and v = ?u and t = "''Hello World''"
         and ?v1.0 = ?u1 and c = "''Invoices''" and ?v2.0 = ?u2]
       7 8 9
  have b: "fk_mailbox (backend (snd (process_message fake_env ?m ?u))) = fk_mailbox (backend ?u)"
    by blast
  from a b show ?thesis by (simp add: world0_def)
qed

text \<open>
  C1, as stated, fails on a message that already carries a category label: classified
  as \<open>Invoices\<close>, it ends with the two category labels \<open>L0\<close> and \<open>L1\<close>, which is
  neither of the two terminal states of the claim.
\<close>

theorem second_category_label:
  "fk_mailbox (backend (snd (main (Some fake_env) (world0 fake_relabel)))) ''m1'' = {''L0'', ''L1''} \<and>
   \<not> labelled_and_read (category_label_ids two_labels)
        (fk_mailbox (backend (snd (main (Some fake_env) (world0 fake_relabel)))) ''m1'') \<and>
   fk_mailbox (backend (snd (main (Some fake_env) (world0 fake_relabel)))) ''m1''
     \<noteq> fk_mailbox fake_relabel ''m1''"
proof -
  let ?after = "fk_mailbox (backend (snd (main (Some fake_env) (world0 fake_relabel)))) ''m1''"
  have 1: "?after = {''L0'', ''L1''}"
    by code_simp
  have 2: "category_label_ids two_labels = {''L0'', ''L1''}"
    by code_simp
  have 3: "fk_mailbox fake_relabel ''m1'' = {''UNREAD'', ''L0''}"
    by code_simp
  have 4: "card ({''L0'', ''L1''} \<inter> {''L0'', ''L1''}) = 2"
    by simp
  have 5: "{''L0'', ''L1''} \<noteq> {''UNREAD'', ''L0''}"
  proof
    assume "{''L0'', ''L1''} = {''UNREAD'', ''L0''}"
    moreover have "''L1'' \<in> {''L0'', ''L1''}" by simp
    ultimately have "''L1'' \<in> {''UNREAD'', ''L0''}" by (rule subst)
    then show False by simp
  qed
  have a: "\<not> labelled_and_read (category_label_ids two_labels) ?after"
    unfolding labelled_and_read_def 1 2 using 4 by simp
  have b: "?after \<noteq> fk_mailbox fake_relabel ''m1''"
    unfolding 1 3 by (rule 5)
  from 1 a b show ?thesis by (intro conjI)
qed


end
